theory Spec2Isabelle
  imports
    Main
    "HOL-Library.AList"
    "HOL-Library.Char_ord"
    "HOL-Library.List_Lexorder"
    "HOL-Library.Multiset"
    "HOL-Library.Word"
begin

section \<open>Election data analyzer\<close>

text \<open>
  The repository holds two classes over a pandas data frame of election results:
  \<^verbatim>\<open>ElectionDataAnalyzer\<close> (election_data_analyzer.py, driven by a console menu) and
  \<^verbatim>\<open>ElectionAnalyzerApp\<close> (terminalBase.py, a tkinter window). Both keep the loaded
  frame in \<^verbatim>\<open>self.data\<close> and the computed series in the dictionary
  \<^verbatim>\<open>self.analysis_results\<close>. Methods become functions from the object's state to a
  result and the new state; a raised exception is the \<open>Inl\<close> of the result, with the
  state as the method left it.
\<close>

subsection \<open>Data frames and series\<close>

text \<open>
  A row of the election table. A cell of a key column is null (\<open>None\<close>) or a value
  of the type \<open>'k\<close>, which carries the order pandas sorts the column by: strings for a
  column of names, compared character by character as Python compares them, integers
  for a column of digits. The \<open>votes\<close> column is a numpy \<^verbatim>\<open>int64\<close> column, whose
  arithmetic wraps around: a 64-bit word, read as a signed number by \<open>sint\<close>. A votes
  column with a null, a fraction or a text is not an \<^verbatim>\<open>int64\<close> column and is outside
  this type.
\<close>

record 'k row =
  region :: "'k option"
  candidate :: "'k option"
  party :: "'k option"
  votes :: "64 word"

text \<open>
  A frame is its list of column names and its rows. A loaded file can lack any of the
  columns: every read of a column checks \<open>columns\<close> first and raises \<open>KeyError\<close>
  when the name is absent, so the cells of an absent column are never looked at.
\<close>

record 'k dataframe =
  columns :: "string list"
  rows :: "'k row list"

text \<open>
  A series: index labels with their values, in order. A label is the tuple of the
  grouping columns' values, one for \<^verbatim>\<open>groupby('region')\<close> and two for
  \<^verbatim>\<open>groupby(['candidate', 'party'])\<close>; tuples of one length are ordered
  lexicographically, which is the order of lists.
\<close>

type_synonym 'k label = "'k list"
type_synonym 'k series = "('k label \<times> 64 word) list"

text \<open>
  The exceptions of the two files, one constructor for each \<^verbatim>\<open>raise\<close> and each
  library failure the methods can meet:
  \<^item> \<open>FileNotFoundError\<close>: the path does not exist;
  \<^item> \<open>UnsupportedFormat\<close>: \<^verbatim>\<open>ValueError("Unsupported file format. ...")\<close>;
  \<^item> \<open>ParseError\<close>: whatever \<^verbatim>\<open>pd.read_csv\<close> or \<^verbatim>\<open>json.load\<close> raises on the file;
  \<^item> \<open>MissingColumns\<close>: \<^verbatim>\<open>ValueError(f"Missing required columns: {missing}")\<close>;
  \<^item> \<open>NoDataLoaded\<close>: \<^verbatim>\<open>ValueError("No data loaded. Please load data first.")\<close>, and
    the window's warning "Please load election data first";
  \<^item> \<open>NoAnalysisResults\<close>: \<^verbatim>\<open>ValueError("No analysis results available. ...")\<close>, and
    the window's warning "Please run analyses first";
  \<^item> \<open>KeyError\<close>: a column read that the frame does not have;
  \<^item> \<open>AttributeError\<close>: \<^verbatim>\<open>self.data.columns\<close> while \<^verbatim>\<open>self.data\<close> is \<^verbatim>\<open>None\<close>;
  \<^item> \<open>PlotError\<close>: whatever matplotlib raises while it draws or saves the charts.
\<close>

datatype error =
    FileNotFoundError string
  | UnsupportedFormat
  | ParseError string
  | MissingColumns "string list"
  | NoDataLoaded
  | NoAnalysisResults
  | KeyError string
  | AttributeError
  | PlotError string

subsection \<open>The pandas operations the analyses call\<close>

text \<open>The cell of a row under the name of a key column.\<close>

definition cell :: "'k row \<Rightarrow> string \<Rightarrow> 'k option" where
  "cell r c =
     (if c = ''region'' then region r
      else if c = ''candidate'' then candidate r
      else if c = ''party'' then party r
      else None)"

text \<open>The group key of a row: none when one of the grouping cells is null.\<close>

definition key_of :: "string list \<Rightarrow> 'k row \<Rightarrow> 'k label option" where
  "key_of cols r = those (map (cell r) cols)"

text \<open>
  \<^verbatim>\<open>df.groupby(cols)['votes'].sum()\<close>. pandas drops the rows with a null grouping cell
  (\<^verbatim>\<open>dropna=True\<close>) and sorts the group keys (\<^verbatim>\<open>sort=True\<close>), both defaults of
  \<^verbatim>\<open>groupby\<close>: the result has one entry for each distinct key of the remaining rows,
  in ascending key order, holding the sum of \<open>votes\<close> over the rows of that key. The
  sum is the \<^verbatim>\<open>int64\<close> sum, which wraps around.
\<close>

definition group_totals :: "string list \<Rightarrow> ('k::linorder) row list \<Rightarrow> 'k series" where
  "group_totals cols rs =
     map (\<lambda>k. (k, sum_list (map votes (filter (\<lambda>r. key_of cols r = Some k) rs))))
       (sort (remdups (List.map_filter (key_of cols) rs)))"

definition groupby_sum :: "string list \<Rightarrow> ('k::linorder) dataframe \<Rightarrow> error + 'k series" where
  "groupby_sum cols df =
     (case filter (\<lambda>c. c \<notin> set (columns df)) (cols @ [''votes'']) of
        c # _ \<Rightarrow> Inl (KeyError c)
      | [] \<Rightarrow> Inr (group_totals cols (rows df)))"

text \<open>
  \<^verbatim>\<open>Series.sort_values(ascending=...)\<close> is called with its default
  \<^verbatim>\<open>kind='quicksort'\<close>, which numpy does not keep stable: the order it leaves equal
  values in depends on numpy's build and on the length of the array. numpy's sort is
  therefore a parameter, \<open>argsort\<close>: the function that puts the entries of a series in
  ascending order of value. \<open>numpy_sort\<close> says what it is known to do, whatever the
  kind: it returns the same entries, in ascending order of the signed value.
\<close>

definition numpy_sort :: "('k series \<Rightarrow> 'k series) \<Rightarrow> bool" where
  "numpy_sort argsort =
     (\<forall>s. mset (argsort s) = mset s \<and> sorted (map (\<lambda>e. sint (snd e)) (argsort s)))"

text \<open>
  For a descending sort pandas reverses the values, sorts them ascending and reverses
  the result (\<^verbatim>\<open>nargsort\<close>).
\<close>

definition sort_values :: "('k series \<Rightarrow> 'k series) \<Rightarrow> bool \<Rightarrow> 'k series \<Rightarrow> 'k series" where
  "sort_values argsort ascending s =
     (if ascending then argsort s else rev (argsort (rev s)))"

text \<open>\<^verbatim>\<open>Series.head(n)\<close>: the first \<open>n\<close> entries, all of them when there are fewer.\<close>

definition head :: "nat \<Rightarrow> 'k series \<Rightarrow> 'k series" where
  "head n s = take n s"

subsection \<open>The console analyzer (election_data_analyzer.py)\<close>

text \<open>
  The fields both classes have, and the console class's dictionary of saved
  visualizations. The dictionaries are association lists: \<open>AList.update\<close> overwrites
  the entry of a key where it stands and appends a new key, as a Python \<^verbatim>\<open>dict\<close> does.
\<close>

record 'k session =
  data :: "'k dataframe option"
  analysis_results :: "(string \<times> 'k series) list"

record 'k analyzer = "'k session" +
  visualizations :: "(string \<times> string) list"

definition new_analyzer :: "'k analyzer" where
  "new_analyzer = \<lparr>data = None, analysis_results = [], visualizations = []\<rparr>"

text \<open>
  What the loaders make of the outside world: \<open>files p\<close> is \<open>None\<close> when no file exists
  at path \<open>p\<close>, \<open>Some (Inl e)\<close> when the pandas or json reader raises \<open>e\<close> on it, and
  \<open>Some (Inr df)\<close> when it reads the frame \<open>df\<close>.
\<close>

type_synonym 'k files = "string \<Rightarrow> (error + 'k dataframe) option"

definition endswith :: "string \<Rightarrow> string \<Rightarrow> bool" where
  "endswith s suffix =
     (length suffix \<le> length s \<and> drop (length s - length suffix) s = suffix)"

text \<open>
  \<^verbatim>\<open>load_data(file_path)\<close>: every exception is caught, printed and answered with
  \<^verbatim>\<open>False\<close>; the result \<open>Inl e\<close> is that answer together with the exception printed.
  Only \<^verbatim>\<open>self.data\<close> is assigned.
\<close>

definition load_data :: "'k files \<Rightarrow> string \<Rightarrow> 'k analyzer \<Rightarrow> (error + bool) \<times> 'k analyzer" where
  "load_data fs file_path s =
     (case fs file_path of
        None \<Rightarrow> (Inl (FileNotFoundError file_path), s)
      | Some r \<Rightarrow>
          if endswith file_path ''.csv'' \<or> endswith file_path ''.json'' then
            (case r of
               Inl e \<Rightarrow> (Inl e, s)
             | Inr df \<Rightarrow> (Inr True, s\<lparr>data := Some df\<rparr>))
          else (Inl UnsupportedFormat, s))"

definition required_columns :: "string list" where
  "required_columns = [''region'', ''candidate'', ''party'', ''votes'']"

text \<open>\<^verbatim>\<open>all(col in self.data.columns for col in required_columns)\<close>, the test of both classes.\<close>

definition has_required_columns :: "'k dataframe \<Rightarrow> bool" where
  "has_required_columns df = list_all (\<lambda>col. col \<in> set (columns df)) required_columns"

text \<open>
  \<^verbatim>\<open>validate_data()\<close> looks at the column names only. The analyses call it after their
  own \<^verbatim>\<open>None\<close> test; called with no frame, \<^verbatim>\<open>self.data.columns\<close> raises.
\<close>

definition validate_data :: "'k analyzer \<Rightarrow> error + bool" where
  "validate_data s =
     (case data s of
        None \<Rightarrow> Inl AttributeError
      | Some df \<Rightarrow>
          if has_required_columns df then Inr True
          else Inl (MissingColumns (filter (\<lambda>col. col \<notin> set (columns df)) required_columns)))"

text \<open>
  The three analyses are one body with two literals changed: the grouping columns and
  the key the result is stored under.
  \<^verbatim>\<open>
    if self.data is None: raise ValueError("No data loaded. Please load data first.")
    self.validate_data()
    x = self.data.groupby(cols)['votes'].sum().sort_values(ascending=False)
    self.analysis_results[name] = x
    return x
  \<close>
\<close>

definition analyze ::
  "('k series \<Rightarrow> 'k series) \<Rightarrow> string \<Rightarrow> string list \<Rightarrow> ('k::linorder) analyzer
     \<Rightarrow> (error + 'k series) \<times> 'k analyzer"
where
  "analyze argsort name cols s =
     (case data s of
        None \<Rightarrow> (Inl NoDataLoaded, s)
      | Some df \<Rightarrow>
          (case validate_data s of
             Inl e \<Rightarrow> (Inl e, s)
           | Inr _ \<Rightarrow>
               (case groupby_sum cols df of
                  Inl e \<Rightarrow> (Inl e, s)
                | Inr g \<Rightarrow>
                    (Inr (sort_values argsort False g),
                     s\<lparr>analysis_results :=
                         AList.update name (sort_values argsort False g) (analysis_results s)\<rparr>))))"

definition analyze_turnout ::
  "('k series \<Rightarrow> 'k series) \<Rightarrow> ('k::linorder) analyzer \<Rightarrow> (error + 'k series) \<times> 'k analyzer"
where
  "analyze_turnout argsort = analyze argsort ''turnout_by_region'' [''region'']"

definition analyze_party_performance ::
  "('k series \<Rightarrow> 'k series) \<Rightarrow> ('k::linorder) analyzer \<Rightarrow> (error + 'k series) \<times> 'k analyzer"
where
  "analyze_party_performance argsort = analyze argsort ''party_performance'' [''party'']"

definition analyze_candidate_performance ::
  "('k series \<Rightarrow> 'k series) \<Rightarrow> ('k::linorder) analyzer \<Rightarrow> (error + 'k series) \<times> 'k analyzer"
where
  "analyze_candidate_performance argsort =
     analyze argsort ''candidate_performance'' [''candidate'', ''party'']"

text \<open>
  \<^verbatim>\<open>generate_visualizations()\<close>. The drawing is matplotlib's, and it can raise (a pie
  chart of a negative value does): \<open>plot\<close> is what matplotlib makes of the stored
  results, \<open>None\<close> when every chart is drawn and saved and \<open>Some e\<close> when it raises
  \<open>e\<close>. The name of the saved image, built from the time of the call (\<open>timestamp\<close> is
  \<^verbatim>\<open>datetime.now().strftime("%Y%m%d_%H%M%S")\<close>), is stored after the image is saved.
\<close>

definition generate_visualizations ::
  "((string \<times> 'k series) list \<Rightarrow> error option) \<Rightarrow> string \<Rightarrow> 'k analyzer
     \<Rightarrow> (error + string) \<times> 'k analyzer"
where
  "generate_visualizations plot timestamp s =
     (if analysis_results s = [] then (Inl NoAnalysisResults, s)
      else
        (case plot (analysis_results s) of
           Some e \<Rightarrow> (Inl e, s)
         | None \<Rightarrow>
             (Inr (''election_analysis_'' @ timestamp @ ''.png''),
              s\<lparr>visualizations :=
                  AList.update ''latest'' (''election_analysis_'' @ timestamp @ ''.png'')
                    (visualizations s)\<rparr>)))"

subsection \<open>The report\<close>

definition nl :: string where
  "nl = [CHR 0x0A]"

text \<open>
  One block of the report, written when the key is in the dictionary:
  \<^verbatim>\<open>
    if name in self.analysis_results:
        f.write(header)
        f.write(shown(self.analysis_results[name]).to_string())
        f.write("\n\n")
  \<close>
  \<^verbatim>\<open>Series.to_string\<close> is pandas' layout of a series as text; it is a parameter here.
\<close>

definition block ::
  "('k series \<Rightarrow> string) \<Rightarrow> (string \<times> 'k series) list \<Rightarrow> string \<Rightarrow> string
     \<Rightarrow> ('k series \<Rightarrow> 'k series) \<Rightarrow> string"
where
  "block to_string results name header shown =
     (case map_of results name of
        None \<Rightarrow> []
      | Some x \<Rightarrow> header @ to_string (shown x) @ nl @ nl)"

text \<open>The title, its rule of 40 equals signs, and the line of the generation time.\<close>

definition report_head :: "string \<Rightarrow> string" where
  "report_head now =
     ''ELECTION ANALYSIS REPORT'' @ nl @ replicate 40 (CHR ''='') @ nl @ nl
     @ ''Generated on: '' @ now @ nl @ nl"

text \<open>
  \<^verbatim>\<open>generate_report(output_file)\<close> of the console class; \<open>now\<close> is
  \<^verbatim>\<open>datetime.now().strftime('%Y-%m-%d %H:%M:%S')\<close>. The result is the file written: its
  path, which the method returns, and its content.
\<close>

definition generate_report ::
  "('k series \<Rightarrow> string) \<Rightarrow> string \<Rightarrow> string \<Rightarrow> 'k analyzer
     \<Rightarrow> (error + string \<times> string) \<times> 'k analyzer"
where
  "generate_report to_string now output_file s =
     (if analysis_results s = [] then (Inl NoAnalysisResults, s)
      else
        (Inr (output_file,
           report_head now
           @ block to_string (analysis_results s) ''turnout_by_region''
               (''VOTER TURNOUT BY REGION:'' @ nl) id
           @ block to_string (analysis_results s) ''party_performance''
               (''PARTY PERFORMANCE:'' @ nl) id
           @ block to_string (analysis_results s) ''candidate_performance''
               (''CANDIDATE PERFORMANCE:'' @ nl) (head 10)
           @ (case map_of (visualizations s) ''latest'' of
                None \<Rightarrow> []
              | Some v \<Rightarrow> ''Visualization saved to: '' @ v @ nl)),
         s))"

subsection \<open>The window (terminalBase.py)\<close>

text \<open>
  Of the window's widgets the state keeps the three texts the methods set: the file
  label, the status bar and the results pane. A message box is the \<open>Inl\<close> of the
  result. The chart methods draw from \<^verbatim>\<open>self.analysis_results\<close> and assign neither
  field of the session; they are not part of this development.
\<close>

record 'k app = "'k session" +
  file_label :: string
  status_var :: string
  results_text :: string

definition new_app :: "'k app" where
  "new_app =
     \<lparr>data = None, analysis_results = [],
      file_label = ''No file loaded'', status_var = ''Ready'', results_text = []\<rparr>"

text \<open>Python's \<^verbatim>\<open>str\<close> of a length, \<^verbatim>\<open>sep.join\<close>, \<^verbatim>\<open>str.upper\<close> and \<^verbatim>\<open>os.path.basename\<close>.\<close>

fun str_nat :: "nat \<Rightarrow> string" where
  "str_nat n =
     (if n < 10 then [char_of (48 + n)]
      else str_nat (n div 10) @ [char_of (48 + n mod 10)])"

fun join :: "string \<Rightarrow> string list \<Rightarrow> string" where
  "join sep [] = []"
| "join sep [x] = x"
| "join sep (x # y # ys) = x @ sep @ join sep (y # ys)"

definition upper :: "string \<Rightarrow> string" where
  "upper s =
     map (\<lambda>c. if CHR ''a'' \<le> c \<and> c \<le> CHR ''z'' then char_of (of_char c - (32::nat)) else c) s"

definition basename :: "string \<Rightarrow> string" where
  "basename p = rev (takeWhile (\<lambda>c. c \<noteq> CHR ''/'') (rev p))"

definition update_results :: "string \<Rightarrow> 'k app \<Rightarrow> 'k app" where
  "update_results text a = a\<lparr>results_text := text\<rparr>"

text \<open>
  \<^verbatim>\<open>load_data(file_type)\<close>: \<open>file_path\<close> is the answer of the file dialog, empty when
  the dialog is cancelled. The frame is assigned before its columns are checked, so a
  frame that fails the check stays in \<^verbatim>\<open>self.data\<close>. Every exception ends in the
  error box and the status "Error loading file".
\<close>

definition app_load_data ::
  "'k files \<Rightarrow> string \<Rightarrow> string \<Rightarrow> 'k app \<Rightarrow> (error + unit) \<times> 'k app"
where
  "app_load_data fs file_path file_type a =
     (if file_path = [] then (Inr (), a)
      else
        (case
           (if file_type = ''csv'' \<or> file_type = ''json'' then
              (case fs file_path of
                 None \<Rightarrow> Inl (FileNotFoundError file_path)
               | Some (Inl e) \<Rightarrow> Inl e
               | Some (Inr df) \<Rightarrow> Inr (a\<lparr>data := Some df\<rparr>))
            else Inr a)
         of
           Inl e \<Rightarrow> (Inl e, a\<lparr>status_var := ''Error loading file''\<rparr>)
         | Inr a1 \<Rightarrow>
             (case data a1 of
                None \<Rightarrow> (Inl AttributeError, a1\<lparr>status_var := ''Error loading file''\<rparr>)
              | Some df \<Rightarrow>
                  if has_required_columns df then
                    (Inr (),
                     update_results
                       (''Data loaded successfully!'' @ nl @ nl
                        @ ''Records loaded: '' @ str_nat (length (rows df)) @ nl
                        @ ''Columns: '' @ join '', '' (columns df))
                       (a1\<lparr>file_label := ''Loaded: '' @ basename file_path,
                           status_var := ''Successfully loaded '' @ upper file_type @ '' file''\<rparr>))
                  else
                    (Inl (MissingColumns
                            (filter (\<lambda>col. col \<notin> set (columns df)) required_columns)),
                     a1\<lparr>status_var := ''Error loading file''\<rparr>))))"

text \<open>
  \<^verbatim>\<open>validate_data()\<close> of the window only asks whether a frame is there (and warns
  "Please load election data first" when it is not).
\<close>

definition app_validate_data :: "'k app \<Rightarrow> bool" where
  "app_validate_data a = (data a \<noteq> None)"

text \<open>
  The window's three analyses, again one body: the stored key, the grouping columns,
  the header and the part of the series shown in the results pane, and the two status
  texts change.
  \<^verbatim>\<open>
    if not self.validate_data(): return
    try:
        x = self.data.groupby(cols)['votes'].sum().sort_values(ascending=False)
        self.analysis_results[name] = x
        self.update_results(header + shown(x).to_string())
        self.status_var.set(completed)
    except Exception as e:
        messagebox.showerror("Analysis Error", str(e)); self.status_var.set(failed)
  \<close>
\<close>

definition app_analyze ::
  "('k series \<Rightarrow> 'k series) \<Rightarrow> ('k series \<Rightarrow> string) \<Rightarrow> string \<Rightarrow> string list \<Rightarrow> string
     \<Rightarrow> ('k series \<Rightarrow> 'k series) \<Rightarrow> string \<Rightarrow> string
     \<Rightarrow> ('k::linorder) app \<Rightarrow> (error + unit) \<times> 'k app"
where
  "app_analyze argsort to_string name cols header shown completed failed a =
     (if \<not> app_validate_data a then (Inl NoDataLoaded, a)
      else
        (case data a of
           None \<Rightarrow> (Inl AttributeError, a\<lparr>status_var := failed\<rparr>)
         | Some df \<Rightarrow>
             (case groupby_sum cols df of
                Inl e \<Rightarrow> (Inl e, a\<lparr>status_var := failed\<rparr>)
              | Inr g \<Rightarrow>
                  (Inr (),
                   (update_results (header @ to_string (shown (sort_values argsort False g)))
                      (a\<lparr>analysis_results :=
                          AList.update name (sort_values argsort False g) (analysis_results a)\<rparr>))
                   \<lparr>status_var := completed\<rparr>))))"

definition app_analyze_turnout ::
  "('k series \<Rightarrow> 'k series) \<Rightarrow> ('k series \<Rightarrow> string) \<Rightarrow> ('k::linorder) app
     \<Rightarrow> (error + unit) \<times> 'k app"
where
  "app_analyze_turnout argsort to_string =
     app_analyze argsort to_string ''turnout_by_region'' [''region'']
       (''VOTER TURNOUT BY REGION:'' @ nl @ nl) id
       ''Voter turnout analysis completed'' ''Error in turnout analysis''"

definition app_analyze_party_performance ::
  "('k series \<Rightarrow> 'k series) \<Rightarrow> ('k series \<Rightarrow> string) \<Rightarrow> ('k::linorder) app
     \<Rightarrow> (error + unit) \<times> 'k app"
where
  "app_analyze_party_performance argsort to_string =
     app_analyze argsort to_string ''party_performance'' [''party'']
       (''PARTY PERFORMANCE:'' @ nl @ nl) id
       ''Party performance analysis completed'' ''Error in party performance analysis''"

definition app_analyze_candidate_performance ::
  "('k series \<Rightarrow> 'k series) \<Rightarrow> ('k series \<Rightarrow> string) \<Rightarrow> ('k::linorder) app
     \<Rightarrow> (error + unit) \<times> 'k app"
where
  "app_analyze_candidate_performance argsort to_string =
     app_analyze argsort to_string ''candidate_performance'' [''candidate'', ''party'']
       (''TOP 10 CANDIDATES BY PERFORMANCE:'' @ nl @ nl) (head 10)
       ''Candidate performance analysis completed''
       ''Error in candidate performance analysis''"

text \<open>
  \<^verbatim>\<open>generate_report()\<close> of the window: \<open>file_path\<close> is the answer of the save dialog,
  empty when it is cancelled, and then nothing is written. The result is the content
  written to the chosen file.
\<close>

definition app_generate_report ::
  "('k series \<Rightarrow> string) \<Rightarrow> string \<Rightarrow> string \<Rightarrow> 'k app \<Rightarrow> (error + string option) \<times> 'k app"
where
  "app_generate_report to_string now file_path a =
     (if analysis_results a = [] then (Inl NoAnalysisResults, a)
      else if file_path = [] then (Inr None, a)
      else
        (Inr (Some
           (report_head now
            @ block to_string (analysis_results a) ''turnout_by_region''
                (''VOTER TURNOUT BY REGION:'' @ nl) id
            @ block to_string (analysis_results a) ''party_performance''
                (''PARTY PERFORMANCE:'' @ nl) id
            @ block to_string (analysis_results a) ''candidate_performance''
                (''CANDIDATE PERFORMANCE (TOP 10):'' @ nl) (head 10))),
         a\<lparr>status_var := ''Report saved to '' @ file_path\<rparr>))"

subsection \<open>The analyses by kind\<close>

text \<open>
  The three analyses under one name, as the menu (choices 2, 3 and 4) and the window's
  three buttons offer them, with the key each one stores its result under.
\<close>

datatype kind = TurnoutByRegion | PartyPerformance | CandidatePerformance

fun result_key :: "kind \<Rightarrow> string" where
  "result_key TurnoutByRegion = ''turnout_by_region''"
| "result_key PartyPerformance = ''party_performance''"
| "result_key CandidatePerformance = ''candidate_performance''"

fun group_columns :: "kind \<Rightarrow> string list" where
  "group_columns TurnoutByRegion = [''region'']"
| "group_columns PartyPerformance = [''party'']"
| "group_columns CandidatePerformance = [''candidate'', ''party'']"

fun run_analysis ::
  "('k series \<Rightarrow> 'k series) \<Rightarrow> kind \<Rightarrow> ('k::linorder) analyzer \<Rightarrow> (error + 'k series) \<times> 'k analyzer"
where
  "run_analysis argsort TurnoutByRegion = analyze_turnout argsort"
| "run_analysis argsort PartyPerformance = analyze_party_performance argsort"
| "run_analysis argsort CandidatePerformance = analyze_candidate_performance argsort"

fun app_run_analysis ::
  "('k series \<Rightarrow> 'k series) \<Rightarrow> ('k series \<Rightarrow> string) \<Rightarrow> kind \<Rightarrow> ('k::linorder) app
     \<Rightarrow> (error + unit) \<times> 'k app"
where
  "app_run_analysis argsort to_string TurnoutByRegion = app_analyze_turnout argsort to_string"
| "app_run_analysis argsort to_string PartyPerformance =
     app_analyze_party_performance argsort to_string"
| "app_run_analysis argsort to_string CandidatePerformance =
     app_analyze_candidate_performance argsort to_string"

subsection \<open>The report as composed from the results\<close>

text \<open>
  The report the specification describes: the title and the line of the generation
  time, then the block of each kind that is in the dictionary, in the fixed order
  turnout, parties, candidates, the last one cut to its first ten entries. The header
  of the candidate block is the one text the two classes word differently.
\<close>

definition compose_report ::
  "('k series \<Rightarrow> string) \<Rightarrow> string \<Rightarrow> string \<Rightarrow> (string \<times> 'k series) list \<Rightarrow> string"
where
  "compose_report to_string candidate_header now results =
     report_head now
     @ block to_string results ''turnout_by_region'' (''VOTER TURNOUT BY REGION:'' @ nl) id
     @ block to_string results ''party_performance'' (''PARTY PERFORMANCE:'' @ nl) id
     @ block to_string results ''candidate_performance'' (candidate_header @ nl) (head 10)"

subsection \<open>Order of first appearance\<close>

text \<open>
  The group keys of a table in the order a scan of its rows first meets them, and the
  property that a ranked series lists the groups of every total in that order.
\<close>

definition first_seen :: "string list \<Rightarrow> 'k row list \<Rightarrow> 'k label list" where
  "first_seen cols rs = rev (remdups (rev (List.map_filter (key_of cols) rs)))"

definition ties_in_first_seen_order :: "string list \<Rightarrow> 'k row list \<Rightarrow> 'k series \<Rightarrow> bool" where
  "ties_in_first_seen_order cols rs ranked =
     list_all
       (\<lambda>t. map fst (filter (\<lambda>e. snd e = t) ranked)
            = filter (\<lambda>k. k \<in> fst ` set (filter (\<lambda>e. snd e = t) ranked)) (first_seen cols rs))
       (map snd ranked)"

subsection \<open>Validity of a table\<close>

text \<open>
  The specification's valid table: no key cell is null and no vote count is negative.
  Neither class tests it.
\<close>

definition valid_rows :: "'k row list \<Rightarrow> bool" where
  "valid_rows rs =
     list_all
       (\<lambda>r. region r \<noteq> None \<and> candidate r \<noteq> None \<and> party r \<noteq> None \<and> 0 \<le> sint (votes r))
       rs"

subsection \<open>Tables, files and library functions to run the methods on\<close>

definition entry :: "string \<Rightarrow> string \<Rightarrow> string \<Rightarrow> 64 word \<Rightarrow> string row" where
  "entry r c p v = \<lparr>region = Some r, candidate = Some c, party = Some p, votes = v\<rparr>"

definition scenario :: "string dataframe" where
  "scenario =
     \<lparr>columns = [''region'', ''candidate'', ''party'', ''votes''],
      rows =
        [entry ''RegionA'' ''Alice'' ''PartyX'' 100,
         entry ''RegionA'' ''Bob'' ''PartyY'' 50,
         entry ''RegionB'' ''Alice'' ''PartyX'' 30]\<rparr>"

text \<open>Two regions with the same total, and the same two rows in the other order.\<close>

definition tied :: "string dataframe" where
  "tied =
     \<lparr>columns = [''region'', ''candidate'', ''party'', ''votes''],
      rows =
        [entry ''RegionB'' ''Bob'' ''PartyY'' 10,
         entry ''RegionA'' ''Alice'' ''PartyX'' 10]\<rparr>"

definition tied_swapped :: "string dataframe" where
  "tied_swapped =
     \<lparr>columns = [''region'', ''candidate'', ''party'', ''votes''],
      rows =
        [entry ''RegionA'' ''Alice'' ''PartyX'' 10,
         entry ''RegionB'' ''Bob'' ''PartyY'' 10]\<rparr>"

text \<open>A table with a negative vote count.\<close>

definition negative :: "string dataframe" where
  "negative =
     \<lparr>columns = [''region'', ''candidate'', ''party'', ''votes''],
      rows = [entry ''RegionA'' ''Alice'' ''PartyX'' (- 5)]\<rparr>"

text \<open>Two rows of one region with \<open>2\<^sup>6\<^sup>2\<close> votes each: their sum is \<open>2\<^sup>6\<^sup>3\<close>.\<close>

definition overflow :: "string dataframe" where
  "overflow =
     \<lparr>columns = [''region'', ''candidate'', ''party'', ''votes''],
      rows =
        [entry ''RegionA'' ''Alice'' ''PartyX'' 4611686018427387904,
         entry ''RegionA'' ''Bob'' ''PartyY'' 4611686018427387904]\<rparr>"

text \<open>A file with the columns \<open>region\<close> and \<open>votes\<close> only.\<close>

definition partial :: "string dataframe" where
  "partial =
     \<lparr>columns = [''region'', ''votes''],
      rows = [\<lparr>region = Some ''RegionA'', candidate = None, party = None, votes = 10\<rparr>]\<rparr>"

definition disk :: "string files" where
  "disk p =
     (if p = ''results.csv'' then Some (Inr scenario)
      else if p = ''recount.json'' then Some (Inr tied)
      else if p = ''negative.csv'' then Some (Inr negative)
      else if p = ''partial.csv'' then Some (Inr partial)
      else None)"

text \<open>One sort numpy could be: the insertion sort, which is stable.\<close>

definition insertion_sort :: "'k series \<Rightarrow> 'k series" where
  "insertion_sort s = sort_key (\<lambda>e. sint (snd e)) s"

text \<open>A run of matplotlib in which every chart is drawn and saved.\<close>

definition draws :: "(string \<times> 'k series) list \<Rightarrow> error option" where
  "draws results = None"

text \<open>
  A plain layout of a series to run the report on: one line for each entry, the parts
  of the label and the value separated by blanks. pandas' own layout aligns the
  columns and heads them with the index names; the theorems below hold for every
  layout.
\<close>

definition str_int :: "int \<Rightarrow> string" where
  "str_int i = (if i < 0 then CHR ''-'' # str_nat (nat (- i)) else str_nat (nat i))"

definition plain_lines :: "string series \<Rightarrow> string" where
  "plain_lines x =
     join nl (map (\<lambda>e. join '' '' (fst e) @ ''    '' @ str_int (sint (snd e))) x)"

section \<open>Properties\<close>

subsection \<open>Grouped sums\<close>

lemma sum_list_indicator_absent:
  "a \<notin> set ks \<Longrightarrow> (\<Sum>k\<leftarrow>ks. if a = k then (c::'b::comm_monoid_add) else 0) = 0"
  by (induction ks) auto

lemma sum_list_indicator:
  "distinct ks \<Longrightarrow> a \<in> set ks \<Longrightarrow>
   (\<Sum>k\<leftarrow>ks. if a = k then (c::'b::comm_monoid_add) else 0) = c"
  by (induction ks) (auto simp: sum_list_indicator_absent)

text \<open>
  Summing the groups of a list sums the elements that have a key, in any commutative
  addition: that of the 64-bit words and that of the integers.
\<close>

lemma sum_list_groups:
  fixes g :: "'a \<Rightarrow> 'b::comm_monoid_add"
  assumes "distinct ks" and "\<And>x k. x \<in> set xs \<Longrightarrow> f x = Some k \<Longrightarrow> k \<in> set ks"
  shows "(\<Sum>k\<leftarrow>ks. sum_list (map g (filter (\<lambda>r. f r = Some k) xs)))
    = sum_list (map g (filter (\<lambda>r. f r \<noteq> None) xs))"
  using assms(2)
proof (induction xs)
  case Nil
  then show ?case by simp
next
  case (Cons x xs)
  have IH: "(\<Sum>k\<leftarrow>ks. sum_list (map g (filter (\<lambda>r. f r = Some k) xs)))
      = sum_list (map g (filter (\<lambda>r. f r \<noteq> None) xs))"
    using Cons.prems by (intro Cons.IH) auto
  show ?case
  proof (cases "f x")
    case None
    then show ?thesis using IH by simp
  next
    case (Some k0)
    then have k0: "k0 \<in> set ks"
      using Cons.prems [of x k0] by simp
    have "(\<Sum>k\<leftarrow>ks. sum_list (map g (filter (\<lambda>r. f r = Some k) (x # xs))))
        = (\<Sum>k\<leftarrow>ks. (if k0 = k then g x else 0)
             + sum_list (map g (filter (\<lambda>r. f r = Some k) xs)))"
      using Some by (intro arg_cong [where f = sum_list] map_cong) auto
    also have "\<dots> = (\<Sum>k\<leftarrow>ks. if k0 = k then g x else 0)
        + (\<Sum>k\<leftarrow>ks. sum_list (map g (filter (\<lambda>r. f r = Some k) xs)))"
      by (simp add: sum_list_addf)
    also have "\<dots> = g x + sum_list (map g (filter (\<lambda>r. f r \<noteq> None) xs))"
      using assms(1) k0 IH by (simp add: sum_list_indicator)
    finally show ?thesis using Some by simp
  qed
qed

lemma set_map_filter: "set (List.map_filter f xs) = {y. \<exists>x \<in> set xs. f x = Some y}"
  by (induction xs) (auto split: option.splits)


lemma group_totals_keys:
  "map fst (group_totals cols rs) = sort (remdups (List.map_filter (key_of cols) rs))"
  by (simp add: group_totals_def comp_def)

lemma group_totals_distinct: "distinct (map fst (group_totals cols rs))"
  by (simp add: group_totals_keys)



text \<open>The grouped sums add up, in the wrapping sum, to the votes of the rows kept.\<close>

lemma group_totals_sum:
  "sum_list (map snd (group_totals cols rs))
     = sum_list (map votes (filter (\<lambda>r. key_of cols r \<noteq> None) rs))"
proof -
  let ?ks = "sort (remdups (List.map_filter (key_of cols) rs))"
  have "sum_list (map snd (group_totals cols rs))
      = (\<Sum>k\<leftarrow>?ks. sum_list (map votes (filter (\<lambda>r. key_of cols r = Some k) rs)))"
    by (simp add: group_totals_def comp_def)
  also have "\<dots> = sum_list (map votes (filter (\<lambda>r. key_of cols r \<noteq> None) rs))"
    by (rule sum_list_groups) (auto simp: set_map_filter)
  finally show ?thesis .
qed

lemma group_totals_map_of:
  "map_of (group_totals cols rs) k =
     (if \<exists>r \<in> set rs. key_of cols r = Some k
      then Some (sum_list (map votes (filter (\<lambda>r. key_of cols r = Some k) rs)))
      else None)"
  by (simp add: group_totals_def map_of_map_restrict restrict_map_def set_map_filter)


lemma groupby_sum_present:
  assumes "set (cols @ [''votes'']) \<subseteq> set (columns df)"
  shows "groupby_sum cols df = Inr (group_totals cols (rows df))"
proof -
  from assms have "filter (\<lambda>c. c \<notin> set (columns df)) (cols @ [''votes'']) = []"
    by (auto simp: filter_empty_conv)
  then show ?thesis unfolding groupby_sum_def by simp
qed

lemma groupby_sum_absent:
  assumes "\<not> set (cols @ [''votes'']) \<subseteq> set (columns df)"
  shows "\<exists>c. c \<in> set (cols @ [''votes'']) \<and> c \<notin> set (columns df)
    \<and> groupby_sum cols df = Inl (KeyError c)"
proof -
  from assms obtain c cs where
    f: "filter (\<lambda>c. c \<notin> set (columns df)) (cols @ [''votes'']) = c # cs"
    by (cases "filter (\<lambda>c. c \<notin> set (columns df)) (cols @ [''votes''])")
      (auto simp: filter_empty_conv)
  then have "c \<in> set (filter (\<lambda>c. c \<notin> set (columns df)) (cols @ [''votes'']))"
    by simp
  then have "c \<in> set (cols @ [''votes'']) \<and> c \<notin> set (columns df)"
    unfolding set_filter by blast
  moreover have "groupby_sum cols df = Inl (KeyError c)"
    unfolding groupby_sum_def f by simp
  ultimately show ?thesis by blast
qed

lemma required_columns_subset:
  "has_required_columns df \<longleftrightarrow> set required_columns \<subseteq> set (columns df)"
  by (auto simp: has_required_columns_def list_all_iff)

lemma groupby_sum_required:
  assumes "has_required_columns df" and "set cols \<subseteq> set required_columns"
  shows "groupby_sum cols df = Inr (group_totals cols (rows df))"
proof (rule groupby_sum_present)
  from assms show "set (cols @ [''votes'']) \<subseteq> set (columns df)"
    by (auto simp: required_columns_subset required_columns_def)
qed

subsection \<open>Sorting by value\<close>

lemma sort_values_mset: "numpy_sort argsort \<Longrightarrow> mset (sort_values argsort b s) = mset s"
  by (simp add: sort_values_def numpy_sort_def)

lemma sort_values_set: "numpy_sort argsort \<Longrightarrow> set (sort_values argsort b s) = set s"
  by (rule mset_eq_setD) (rule sort_values_mset)


lemma sort_values_sum:
  assumes "numpy_sort argsort"
  shows "sum_list (map h (sort_values argsort b s)) = (sum_list (map h s) :: 'b::comm_monoid_add)"
proof -
  have "mset (map h (sort_values argsort b s)) = mset (map h s)"
    by (simp only: mset_map sort_values_mset [OF assms])
  then show ?thesis
    by (metis sum_mset_sum_list)
qed

lemma sort_values_descending:
  assumes "numpy_sort argsort"
  shows "sorted_wrt (\<lambda>x y. sint (snd y) \<le> sint (snd x)) (sort_values argsort False s)"
proof -
  from assms have "sorted (map (\<lambda>e. sint (snd e)) (argsort (rev s)))"
    by (simp add: numpy_sort_def)
  then have "sorted_wrt (\<lambda>x y. sint (snd x) \<le> sint (snd y)) (argsort (rev s))"
    by (simp add: sorted_map)
  then show ?thesis
    by (simp add: sort_values_def sorted_wrt_rev)
qed

lemma sort_values_distinct:
  assumes "numpy_sort argsort"
  shows "distinct (map fst (sort_values argsort b s)) = distinct (map fst s)"
proof -
  have "mset (map fst (sort_values argsort b s)) = mset (map fst s)"
    by (simp only: mset_map sort_values_mset [OF assms])
  then show ?thesis
    by (rule mset_eq_imp_distinct_iff)
qed

lemma sort_values_map_of:
  "numpy_sort argsort \<Longrightarrow> distinct (map fst g) \<Longrightarrow>
   map_of (sort_values argsort b g) = map_of g"
  by (simp add: map_of_inject_set sort_values_distinct sort_values_set)

lemma insertion_sort_numpy: "numpy_sort insertion_sort"
  by (simp add: numpy_sort_def insertion_sort_def)

text \<open>Where no two values are equal, every sort gives the one sorted order.\<close>

lemma filter_same_value:
  "distinct (map f zs) \<Longrightarrow> k \<in> set zs \<Longrightarrow> filter (\<lambda>x. f k = f x) zs = [k]"
proof (induction zs)
  case Nil
  then show ?case by simp
next
  case (Cons z zs)
  show ?case
  proof (cases "k = z")
    case True
    with Cons.prems(1) have "filter (\<lambda>x. f k = f x) zs = []"
      by (auto simp: filter_empty_conv)
    with True show ?thesis by simp
  next
    case False
    with Cons.prems have k: "k \<in> set zs"
      by auto
    from Cons.prems(1) have "f z \<notin> f ` set zs"
      by simp
    with k have "f k \<noteq> f z"
      by (metis imageI)
    with k Cons show ?thesis by simp
  qed
qed

lemma numpy_sort_unique:
  assumes "numpy_sort argsort" and "distinct (map (\<lambda>e. sint (snd e)) s)"
  shows "argsort s = insertion_sort s"
proof -
  let ?f = "\<lambda>e. sint (snd e)"
  have m: "mset (argsort s) = mset s" and srt: "sorted (map ?f (argsort s))"
    using assms(1) by (simp_all add: numpy_sort_def)
  have "mset (map ?f (argsort s)) = mset (map ?f s)"
    by (simp only: mset_map m)
  then have d: "distinct (map ?f (argsort s))"
    using assms(2) mset_eq_imp_distinct_iff by blast
  have "filter (\<lambda>x. ?f k = ?f x) (argsort s) = filter (\<lambda>x. ?f k = ?f x) s"
    if "k \<in> set (argsort s)" for k
  proof -
    from that m have "k \<in> set s"
      using mset_eq_setD by blast
    have "filter (\<lambda>x. ?f k = ?f x) (argsort s) = [k]"
      using d that by (rule filter_same_value)
    moreover have "filter (\<lambda>x. ?f k = ?f x) s = [k]"
      using assms(2) \<open>k \<in> set s\<close> by (rule filter_same_value)
    ultimately show ?thesis by simp
  qed
  with m srt have "sort_key ?f s = argsort s"
    by (intro properties_for_sort_key)
  then show ?thesis
    by (simp add: insertion_sort_def)
qed

lemma sort_values_unique:
  assumes "numpy_sort argsort" and "distinct (map (\<lambda>e. sint (snd e)) s)"
  shows "sort_values argsort b s = sort_values insertion_sort b s"
proof -
  from assms(2) have "distinct (map (\<lambda>e. sint (snd e)) (rev s))"
    by (simp add: rev_map [symmetric] del: rev_map)
  with assms show ?thesis
    by (simp add: sort_values_def numpy_sort_unique)
qed

subsection \<open>Sums without wrap-around\<close>

lemma sint_sum_list:
  fixes ws :: "64 word list"
  assumes "\<And>w. w \<in> set ws \<Longrightarrow> 0 \<le> sint w" and "sum_list (map sint ws) < 2 ^ 63"
  shows "sint (sum_list ws) = sum_list (map sint ws)"
  using assms
proof (induction ws)
  case Nil
  then show ?case by simp
next
  case (Cons w ws)
  have nonneg: "0 \<le> sum_list (map sint ws)"
    using Cons.prems(1) by (intro sum_list_nonneg) auto
  have w: "0 \<le> sint w"
    using Cons.prems(1) by simp
  have "sum_list (map sint ws) < 2 ^ 63"
    using Cons.prems(2) w by simp
  then have IH: "sint (sum_list ws) = sum_list (map sint ws)"
    using Cons.prems(1) by (intro Cons.IH) auto
  have "sint (w + sum_list ws) = signed_take_bit 63 (sint w + sint (sum_list ws))"
    by (simp add: sint_word_ariths)
  also have "\<dots> = sint w + sum_list (map sint ws)"
    using Cons.prems(2) w nonneg by (simp add: IH signed_take_bit_int_eq_self)
  finally show ?case by simp
qed

lemma sum_list_filter_le:
  fixes h :: "'a \<Rightarrow> int"
  assumes "\<And>x. x \<in> set xs \<Longrightarrow> 0 \<le> h x"
  shows "sum_list (map h (filter P xs)) \<le> sum_list (map h xs)"
  using assms by (induction xs) (auto simp: add_increasing)

text \<open>
  With no negative count and a total below \<open>2\<^sup>6\<^sup>3\<close> no group sum wraps, and the
  grouped sums add up as integers to the votes of the rows kept.
\<close>

lemma group_totals_exact:
  fixes rs :: "('k::linorder) row list"
  assumes "\<And>r. r \<in> set rs \<Longrightarrow> 0 \<le> sint (votes r)"
    and "sum_list (map (\<lambda>r. sint (votes r)) rs) < 2 ^ 63"
  shows "sum_list (map (\<lambda>e. sint (snd e)) (group_totals cols rs))
    = sum_list (map (\<lambda>r. sint (votes r)) (filter (\<lambda>r. key_of cols r \<noteq> None) rs))"
proof -
  let ?ks = "sort (remdups (List.map_filter (key_of cols) rs))"
  have group: "sint (sum_list (map votes (filter (\<lambda>r. key_of cols r = Some k) rs)))
      = sum_list (map (\<lambda>r. sint (votes r)) (filter (\<lambda>r. key_of cols r = Some k) rs))" for k
  proof -
    let ?g = "filter (\<lambda>r. key_of cols r = Some k) rs"
    have "sum_list (map (\<lambda>r. sint (votes r)) ?g) \<le> sum_list (map (\<lambda>r. sint (votes r)) rs)"
      using assms(1) by (rule sum_list_filter_le)
    with assms(2) have "sum_list (map sint (map votes ?g)) < 2 ^ 63"
      by (simp add: comp_def)
    moreover have "0 \<le> sint w" if "w \<in> set (map votes ?g)" for w
      using that assms(1) by auto
    ultimately have "sint (sum_list (map votes ?g)) = sum_list (map sint (map votes ?g))"
      by (intro sint_sum_list) auto
    then show ?thesis by (simp add: comp_def)
  qed
  have "sum_list (map (\<lambda>e. sint (snd e)) (group_totals cols rs))
      = (\<Sum>k\<leftarrow>?ks. sint (sum_list (map votes (filter (\<lambda>r. key_of cols r = Some k) rs))))"
    by (simp add: group_totals_def comp_def)
  also have "\<dots> = (\<Sum>k\<leftarrow>?ks. sum_list (map (\<lambda>r. sint (votes r))
      (filter (\<lambda>r. key_of cols r = Some k) rs)))"
    by (simp only: group)
  also have "\<dots> = sum_list (map (\<lambda>r. sint (votes r)) (filter (\<lambda>r. key_of cols r \<noteq> None) rs))"
    by (rule sum_list_groups) (auto simp: set_map_filter)
  finally show ?thesis .
qed

lemma valid_rows_keyed:
  assumes "valid_rows rs"
  shows "filter (\<lambda>r. key_of (group_columns k) r \<noteq> None) rs = rs"
proof -
  have "key_of (group_columns k) r \<noteq> None" if "r \<in> set rs" for r
    using that assms
    by (cases k) (auto simp: valid_rows_def list_all_iff key_of_def cell_def)
  then show ?thesis by simp
qed

lemma valid_rows_nonneg: "valid_rows rs \<Longrightarrow> r \<in> set rs \<Longrightarrow> 0 \<le> sint (votes r)"
  by (simp add: valid_rows_def list_all_iff)

subsection \<open>The console analyses\<close>

lemma group_columns_required: "set (group_columns k) \<subseteq> set required_columns"
  by (cases k) (simp_all add: required_columns_def)

lemma run_analysis_analyze:
  "run_analysis argsort k = analyze argsort (result_key k) (group_columns k)"
  by (cases k)
    (simp_all add: analyze_turnout_def analyze_party_performance_def
      analyze_candidate_performance_def)

lemma analyze_loaded:
  assumes "data s = Some df" and "has_required_columns df"
    and "set cols \<subseteq> set required_columns"
  shows "analyze argsort name cols s =
    (Inr (sort_values argsort False (group_totals cols (rows df))),
     s\<lparr>analysis_results :=
        AList.update name (sort_values argsort False (group_totals cols (rows df)))
          (analysis_results s)\<rparr>)"
  using assms by (simp add: analyze_def validate_data_def groupby_sum_required)

lemma analyze_missing:
  assumes "data s = Some df" and "\<not> has_required_columns df"
  shows "analyze argsort name cols s =
    (Inl (MissingColumns (filter (\<lambda>col. col \<notin> set (columns df)) required_columns)), s)"
  using assms by (simp add: analyze_def validate_data_def)

lemma analyze_failed:
  "fst (analyze argsort name cols s) = Inl e \<Longrightarrow> snd (analyze argsort name cols s) = s"
  by (auto simp: analyze_def split: option.splits sum.splits)

lemma analyze_data: "data (snd (analyze argsort name cols s)) = data s"
  by (auto simp: analyze_def split: option.splits sum.splits)

lemma analyze_others:
  "n \<noteq> name \<Longrightarrow>
   map_of (analysis_results (snd (analyze argsort name cols s))) n
     = map_of (analysis_results s) n"
  by (auto simp: analyze_def update_conv' split: option.splits sum.splits)

lemma analyze_again:
  "analyze argsort name cols (snd (analyze argsort name cols s)) = analyze argsort name cols s"
  by (auto simp: analyze_def validate_data_def split: option.splits sum.splits)

subsection \<open>The window's analyses\<close>

lemma app_analyze_empty:
  "data a = None \<Longrightarrow>
   app_analyze argsort ts name cols header shown completed failed a = (Inl NoDataLoaded, a)"
  by (simp add: app_analyze_def app_validate_data_def)

lemma app_analyze_present:
  assumes "data a = Some df" and "set (cols @ [''votes'']) \<subseteq> set (columns df)"
  shows "fst (app_analyze argsort ts name cols header shown completed failed a) = Inr ()"
    and "analysis_results (snd (app_analyze argsort ts name cols header shown completed failed a))
      = AList.update name (sort_values argsort False (group_totals cols (rows df)))
          (analysis_results a)"
  using assms(1) groupby_sum_present [OF assms(2)]
  by (simp_all add: app_analyze_def app_validate_data_def update_results_def)

lemma app_analyze_absent:
  assumes "data a = Some df" and "\<not> set (cols @ [''votes'']) \<subseteq> set (columns df)"
  shows "\<exists>c. c \<in> set (cols @ [''votes'']) \<and> c \<notin> set (columns df)
    \<and> fst (app_analyze argsort ts name cols header shown completed failed a) = Inl (KeyError c)"
proof -
  from groupby_sum_absent [OF assms(2)] obtain c where
    "c \<in> set (cols @ [''votes''])" "c \<notin> set (columns df)"
    "groupby_sum cols df = Inl (KeyError c)"
    by blast
  with assms(1) show ?thesis
    by (intro exI [of _ c]) (simp add: app_analyze_def app_validate_data_def)
qed

lemma app_analyze_loaded:
  assumes "data a = Some df" and "has_required_columns df"
    and "set cols \<subseteq> set required_columns"
  shows "fst (app_analyze argsort ts name cols header shown completed failed a) = Inr ()"
    and "analysis_results (snd (app_analyze argsort ts name cols header shown completed failed a))
      = AList.update name (sort_values argsort False (group_totals cols (rows df)))
          (analysis_results a)"
proof -
  from assms(2,3) have "set (cols @ [''votes'']) \<subseteq> set (columns df)"
    by (auto simp: required_columns_subset required_columns_def)
  with assms(1)
  show "fst (app_analyze argsort ts name cols header shown completed failed a) = Inr ()"
    and "analysis_results (snd (app_analyze argsort ts name cols header shown completed failed a))
      = AList.update name (sort_values argsort False (group_totals cols (rows df)))
          (analysis_results a)"
    by (rule app_analyze_present)+
qed

lemma app_analyze_failed:
  "fst (app_analyze argsort ts name cols header shown completed failed a) = Inl e \<Longrightarrow>
   analysis_results (snd (app_analyze argsort ts name cols header shown completed failed a))
     = analysis_results a"
  by (auto simp: app_analyze_def update_results_def split: option.splits sum.splits if_splits)

lemma app_analyze_data:
  "data (snd (app_analyze argsort ts name cols header shown completed failed a)) = data a"
  by (auto simp: app_analyze_def update_results_def split: option.splits sum.splits)

lemma app_analyze_others:
  "n \<noteq> name \<Longrightarrow>
   map_of (analysis_results
       (snd (app_analyze argsort ts name cols header shown completed failed a))) n
     = map_of (analysis_results a) n"
  by (auto simp: app_analyze_def update_results_def update_conv'
      split: option.splits sum.splits)

lemma app_analyze_again:
  "analysis_results
     (snd (app_analyze argsort ts name cols header shown completed failed
        (snd (app_analyze argsort ts name cols header shown completed failed a))))
   = analysis_results (snd (app_analyze argsort ts name cols header shown completed failed a))"
  by (auto simp: app_analyze_def app_validate_data_def update_results_def
      split: option.splits sum.splits)

lemma app_run_analysis_analyze:
  "\<exists>header shown completed failed.
     app_run_analysis argsort ts k
       = app_analyze argsort ts (result_key k) (group_columns k) header shown completed failed"
  by (cases k)
    (auto simp: app_analyze_turnout_def app_analyze_party_performance_def
      app_analyze_candidate_performance_def)

lemma result_key_inject: "result_key j = result_key k \<longleftrightarrow> j = k"
  by (cases j; cases k) simp_all

subsection \<open>The tables of the examples\<close>

lemma scenario_required: "has_required_columns scenario"
  by (simp add: has_required_columns_def required_columns_def scenario_def)

lemma scenario_data:
  "data (new_analyzer\<lparr>data := Some df\<rparr>) = Some df"
  "data (new_app\<lparr>data := Some df\<rparr>) = Some df"
  "analysis_results (new_analyzer\<lparr>data := Some df\<rparr>) = []"
  "analysis_results (new_app\<lparr>data := Some df\<rparr>) = []"
  by (simp_all add: new_analyzer_def new_app_def)

section \<open>The claims\<close>

subsection \<open>Conservation of the votes\<close>

text \<open>
  C4 (conservation), as the code has it. pandas adds the votes of a group as
  \<^verbatim>\<open>int64\<close> numbers, and that sum wraps around. For a loaded table with the four
  required columns and each of the three groupings, the series an analysis returns
  and stores (the same in both classes) adds up, in 64-bit arithmetic, to the votes
  of the rows whose grouping cells are not null: for a valid table, to the votes of
  all its rows. When the table is valid and its votes add up to less than \<open>2\<^sup>6\<^sup>3\<close>,
  nothing wraps and the totals add up to the sum of the votes as integers.
\<close>

theorem conservation:
  fixes df :: "('k::linorder) dataframe"
  assumes "numpy_sort argsort" and "has_required_columns df"
    and "data s = Some df" and "data a = Some df"
  shows "\<exists>r. run_analysis argsort k s
        = (Inr r, s\<lparr>analysis_results := AList.update (result_key k) r (analysis_results s)\<rparr>)
    \<and> map_of (analysis_results (snd (app_run_analysis argsort ts k a))) (result_key k) = Some r
    \<and> sum_list (map snd r)
        = sum_list (map votes (filter (\<lambda>x. key_of (group_columns k) x \<noteq> None) (rows df)))
    \<and> (valid_rows (rows df) \<longrightarrow> sum_list (map snd r) = sum_list (map votes (rows df)))
    \<and> (valid_rows (rows df) \<and> sum_list (map (\<lambda>x. sint (votes x)) (rows df)) < 2 ^ 63 \<longrightarrow>
         sum_list (map (\<lambda>e. sint (snd e)) r) = sum_list (map (\<lambda>x. sint (votes x)) (rows df)))"
proof -
  let ?g = "group_totals (group_columns k) (rows df)"
  let ?r = "sort_values argsort False ?g"
  obtain header shown completed failed where
    app: "app_run_analysis argsort ts k
      = app_analyze argsort ts (result_key k) (group_columns k) header shown completed failed"
    using app_run_analysis_analyze by blast
  have 1: "run_analysis argsort k s
      = (Inr ?r, s\<lparr>analysis_results := AList.update (result_key k) ?r (analysis_results s)\<rparr>)"
    using assms(2,3) group_columns_required [of k]
    by (simp add: run_analysis_analyze analyze_loaded)
  have 2: "map_of (analysis_results (snd (app_run_analysis argsort ts k a))) (result_key k)
      = Some ?r"
    unfolding app
    by (simp add: app_analyze_loaded(2) [OF assms(4) assms(2) group_columns_required]
        update_conv')
  have 3: "sum_list (map snd ?r)
      = sum_list (map votes (filter (\<lambda>x. key_of (group_columns k) x \<noteq> None) (rows df)))"
    by (simp only: sort_values_sum [OF assms(1)] group_totals_sum)
  have 4: "sum_list (map snd ?r) = sum_list (map votes (rows df))" if "valid_rows (rows df)"
    using 3 by (simp only: valid_rows_keyed [OF that])
  have 5: "sum_list (map (\<lambda>e. sint (snd e)) ?r) = sum_list (map (\<lambda>x. sint (votes x)) (rows df))"
    if "valid_rows (rows df) \<and> sum_list (map (\<lambda>x. sint (votes x)) (rows df)) < 2 ^ 63"
  proof -
    from that have v: "valid_rows (rows df)"
      and b: "sum_list (map (\<lambda>x. sint (votes x)) (rows df)) < 2 ^ 63"
      by simp_all
    have "sum_list (map (\<lambda>e. sint (snd e)) ?g)
        = sum_list (map (\<lambda>x. sint (votes x))
            (filter (\<lambda>x. key_of (group_columns k) x \<noteq> None) (rows df)))"
      using valid_rows_nonneg [OF v] b by (rule group_totals_exact)
    then show ?thesis
      by (simp only: sort_values_sum [OF assms(1)] valid_rows_keyed [OF v])
  qed
  from 1 2 3 4 5 show ?thesis
    by blast
qed

theorem conservation_witness:
  "numpy_sort (insertion_sort :: string series \<Rightarrow> string series)
   \<and> has_required_columns scenario
   \<and> valid_rows (rows scenario)
   \<and> sum_list (map (\<lambda>x. sint (votes x)) (rows scenario)) = 180
   \<and> (\<exists>r. run_analysis insertion_sort TurnoutByRegion (new_analyzer\<lparr>data := Some scenario\<rparr>)
            = (Inr r, new_analyzer\<lparr>data := Some scenario,
                        analysis_results := AList.update ''turnout_by_region'' r []\<rparr>)
          \<and> map_of (analysis_results
               (snd (app_run_analysis insertion_sort plain_lines TurnoutByRegion
                  (new_app\<lparr>data := Some scenario\<rparr>)))) ''turnout_by_region'' = Some r
          \<and> sum_list (map snd r) = 180
          \<and> sum_list (map (\<lambda>e. sint (snd e)) r) = 180)"
proof -
  have v: "valid_rows (rows scenario)"
    by (simp add: valid_rows_def scenario_def entry_def)
  have t: "sum_list (map (\<lambda>x. sint (votes x)) (rows scenario)) = 180"
    "sum_list (map votes (rows scenario)) = 180"
    by (simp_all add: scenario_def entry_def)
  show ?thesis
    using conservation [OF insertion_sort_numpy scenario_required scenario_data(1,2),
        where k = TurnoutByRegion and ts = plain_lines]
    by (simp add: v t insertion_sort_numpy scenario_required scenario_data new_analyzer_def)
      blast
qed

text \<open>
  The claim as the specification words it, with the sums taken as integers, fails on
  the table \<open>overflow\<close>: a valid table, two rows of RegionA with \<open>2\<^sup>6\<^sup>2\<close> votes each. The
  total of RegionA wraps to \<open>-2\<^sup>6\<^sup>3\<close>, and the votes add up to \<open>2\<^sup>6\<^sup>3\<close>. A series of one
  entry is the same under every sort.
\<close>

theorem conservation_counterexample:
  "has_required_columns overflow
   \<and> valid_rows (rows overflow)
   \<and> groupby_sum [''region''] overflow = Inr [([''RegionA''], 9223372036854775808)]
   \<and> fst (analyze_turnout insertion_sort (new_analyzer\<lparr>data := Some overflow\<rparr>))
       = Inr [([''RegionA''], 9223372036854775808)]
   \<and> sum_list (map (\<lambda>e. sint (snd e)) [([''RegionA''], 9223372036854775808 :: 64 word)])
       = - 9223372036854775808
   \<and> sum_list (map (\<lambda>x. sint (votes x)) (rows overflow)) = 9223372036854775808"
  by code_simp

subsection \<open>The order of a ranked series\<close>




text \<open>
  The grouped sums do not see the order of the rows: two tables with the same rows,
  in whatever order, give one series.
\<close>

lemma group_totals_mset:
  fixes rs :: "('k::linorder) row list"
  assumes "mset rs = mset rs'"
  shows "group_totals cols rs = group_totals cols rs'"
proof -
  from assms have "set rs = set rs'"
    by (rule mset_eq_setD)
  then have "set (List.map_filter (key_of cols) rs) = set (List.map_filter (key_of cols) rs')"
    by (simp add: set_map_filter)
  then have keys: "sort (remdups (List.map_filter (key_of cols) rs))
      = sort (remdups (List.map_filter (key_of cols) rs'))"
    by (simp add: sorted_list_of_set_sort_remdups [symmetric])
  have "sum_list (map votes (filter P rs)) = sum_list (map votes (filter P rs'))" for P
  proof -
    have "mset (map votes (filter P rs)) = mset (map votes (filter P rs'))"
      by (simp add: assms)
    then show ?thesis
      by (metis sum_mset_sum_list)
  qed
  with keys show ?thesis
    by (simp add: group_totals_def)
qed

lemma analyze_row_order:
  fixes df df' :: "('k::linorder) dataframe"
  assumes "data s = Some df" and "data s' = Some df'"
    and "columns df' = columns df" and "mset (rows df') = mset (rows df)"
  shows "fst (analyze argsort name cols s') = fst (analyze argsort name cols s)"
  using assms(1-3) group_totals_mset [OF assms(4), of cols]
  by (simp add: analyze_def validate_data_def has_required_columns_def groupby_sum_def
      split: list.splits)

lemma app_analyze_row_order:
  fixes df df' :: "('k::linorder) dataframe"
  assumes "data a = Some df" and "data a' = Some df'"
    and "columns df' = columns df" and "mset (rows df') = mset (rows df)"
    and "analysis_results a' = analysis_results a"
  shows "analysis_results (snd (app_analyze argsort ts name cols header shown completed failed a'))
    = analysis_results (snd (app_analyze argsort ts name cols header shown completed failed a))"
  using assms(1-3,5) group_totals_mset [OF assms(4), of cols]
  by (simp add: app_analyze_def app_validate_data_def groupby_sum_def update_results_def
      split: list.splits)

lemma mset_pair: "mset x = mset [p, q] \<Longrightarrow> x = [p, q] \<or> x = [q, p]"
proof -
  assume m: "mset x = mset [p, q]"
  then have "length x = 2"
    using mset_eq_length by fastforce
  then obtain u v where x: "x = [u, v]"
    by (metis (no_types, opaque_lifting) One_nat_def Suc_1 length_0_conv length_Suc_conv)
  with m have "{#u, v#} = {#p, q#}"
    by simp
  then have "(u = p \<and> v = q) \<or> (u = q \<and> v = p)"
    by (auto simp: add_eq_conv_ex)
  with x show ?thesis by blast
qed

lemma tied_regions:
  "group_totals [''region''] (rows tied) = [([''RegionA''], 10), ([''RegionB''], 10)]"
  "group_totals [''region''] (rows tied_swapped) = [([''RegionA''], 10), ([''RegionB''], 10)]"
  by code_simp+

lemma tied_required: "has_required_columns tied" "has_required_columns tied_swapped"
  by (simp_all add: has_required_columns_def required_columns_def tied_def tied_swapped_def)

text \<open>
  C3 (order of equal totals), as the code has it. The ranked series is in descending
  order of total. \<^verbatim>\<open>groupby\<close> hands the groups to the sort in key order, and the order
  in which the sort leaves groups of one total is numpy's: the order of first
  appearance in the table plays no part in it. Two loaded tables with the same
  columns and the same rows, in whatever order, rank identically, and running an
  analysis again on the state it left returns the same series and leaves the same
  state.
\<close>

theorem ranking_ignores_row_order:
  fixes df df' :: "('k::linorder) dataframe"
  assumes "numpy_sort argsort"
  shows "(groupby_sum cols df = Inr g \<longrightarrow>
      sorted_wrt (\<lambda>x y. sint (snd y) \<le> sint (snd x)) (sort_values argsort False g))
   \<and> (data s = Some df \<and> data s' = Some df' \<and> columns df' = columns df
        \<and> mset (rows df') = mset (rows df) \<longrightarrow>
      fst (run_analysis argsort k s') = fst (run_analysis argsort k s))
   \<and> (data a = Some df \<and> data a' = Some df' \<and> columns df' = columns df
        \<and> mset (rows df') = mset (rows df) \<and> analysis_results a' = analysis_results a \<longrightarrow>
      analysis_results (snd (app_run_analysis argsort ts k a'))
        = analysis_results (snd (app_run_analysis argsort ts k a)))
   \<and> run_analysis argsort k (snd (run_analysis argsort k s)) = run_analysis argsort k s
   \<and> analysis_results
        (snd (app_run_analysis argsort ts k (snd (app_run_analysis argsort ts k a))))
       = analysis_results (snd (app_run_analysis argsort ts k a))"
proof -
  obtain header shown completed failed where
    app: "app_run_analysis argsort ts k
      = app_analyze argsort ts (result_key k) (group_columns k) header shown completed failed"
    using app_run_analysis_analyze by blast
  have 1: "groupby_sum cols df = Inr g \<longrightarrow>
      sorted_wrt (\<lambda>x y. sint (snd y) \<le> sint (snd x)) (sort_values argsort False g)"
    using sort_values_descending [OF assms] by blast
  have 2: "data s = Some df \<and> data s' = Some df' \<and> columns df' = columns df
        \<and> mset (rows df') = mset (rows df) \<longrightarrow>
      fst (run_analysis argsort k s') = fst (run_analysis argsort k s)"
    by (simp add: run_analysis_analyze analyze_row_order)
  have 3: "data a = Some df \<and> data a' = Some df' \<and> columns df' = columns df
        \<and> mset (rows df') = mset (rows df) \<and> analysis_results a' = analysis_results a \<longrightarrow>
      analysis_results (snd (app_run_analysis argsort ts k a'))
        = analysis_results (snd (app_run_analysis argsort ts k a))"
    unfolding app using app_analyze_row_order [of a df a' df'] by blast
  have 4: "run_analysis argsort k (snd (run_analysis argsort k s)) = run_analysis argsort k s"
    by (simp only: run_analysis_analyze analyze_again)
  have 5: "analysis_results
        (snd (app_run_analysis argsort ts k (snd (app_run_analysis argsort ts k a))))
       = analysis_results (snd (app_run_analysis argsort ts k a))"
    unfolding app by (rule app_analyze_again)
  from 1 2 3 4 5 show ?thesis
    by blast
qed

theorem ranking_ignores_row_order_witness:
  "numpy_sort (insertion_sort :: string series \<Rightarrow> string series)
   \<and> groupby_sum [''region''] tied = Inr [([''RegionA''], 10), ([''RegionB''], 10)]
   \<and> sorted_wrt (\<lambda>x y. sint (snd y) \<le> sint (snd x))
       (sort_values insertion_sort False [([''RegionA''], 10), ([''RegionB''], 10 :: 64 word)])
   \<and> columns tied_swapped = columns tied
   \<and> mset (rows tied_swapped) = mset (rows tied)
   \<and> fst (run_analysis insertion_sort TurnoutByRegion (new_analyzer\<lparr>data := Some tied_swapped\<rparr>))
       = fst (run_analysis insertion_sort TurnoutByRegion (new_analyzer\<lparr>data := Some tied\<rparr>))
   \<and> analysis_results
        (snd (app_run_analysis insertion_sort plain_lines TurnoutByRegion
           (new_app\<lparr>data := Some tied_swapped\<rparr>)))
       = analysis_results
        (snd (app_run_analysis insertion_sort plain_lines TurnoutByRegion
           (new_app\<lparr>data := Some tied\<rparr>)))"
proof -
  have g: "groupby_sum [''region''] tied = Inr [([''RegionA''], 10), ([''RegionB''], 10)]"
    using groupby_sum_required [OF tied_required(1), of "[''region'']"]
    by (simp add: required_columns_def tied_regions)
  have c: "columns tied_swapped = columns tied"
    and m: "mset (rows tied_swapped) = mset (rows tied)"
    by (simp_all add: tied_def tied_swapped_def)
  show ?thesis
    using g c m insertion_sort_numpy
      ranking_ignores_row_order [OF insertion_sort_numpy,
        where cols = "[''region'']" and df = tied and df' = tied_swapped
          and g = "[([''RegionA''], 10), ([''RegionB''], 10)]" and k = TurnoutByRegion
          and s = "new_analyzer\<lparr>data := Some tied\<rparr>"
          and s' = "new_analyzer\<lparr>data := Some tied_swapped\<rparr>"
          and a = "new_app\<lparr>data := Some tied\<rparr>"
          and a' = "new_app\<lparr>data := Some tied_swapped\<rparr>" and ts = plain_lines]
    by (simp add: scenario_data)
qed

text \<open>
  The claim as the specification words it fails whatever sort numpy runs. The tables
  \<open>tied\<close> and \<open>tied_swapped\<close> hold the same two rows, RegionB first in the one and
  RegionA first in the other, and both regions total 10. Both tables rank the same
  way, so the ranking of one of them is not in its order of first appearance. Under
  the insertion sort it is \<open>tied\<close>: RegionB is met first and RegionA is ranked first.
\<close>

theorem first_seen_order_counterexample:
  "\<not> (\<exists>argsort r r'. numpy_sort argsort
        \<and> fst (analyze_turnout argsort (new_analyzer\<lparr>data := Some tied\<rparr>)) = Inr r
        \<and> fst (analyze_turnout argsort (new_analyzer\<lparr>data := Some tied_swapped\<rparr>)) = Inr r'
        \<and> ties_in_first_seen_order [''region''] (rows tied) r
        \<and> ties_in_first_seen_order [''region''] (rows tied_swapped) r')
   \<and> first_seen [''region''] (rows tied) = [[''RegionB''], [''RegionA'']]
   \<and> first_seen [''region''] (rows tied_swapped) = [[''RegionA''], [''RegionB'']]
   \<and> fst (analyze_turnout insertion_sort (new_analyzer\<lparr>data := Some tied\<rparr>))
       = Inr [([''RegionA''], 10), ([''RegionB''], 10)]
   \<and> \<not> ties_in_first_seen_order [''region''] (rows tied)
         [([''RegionA''], 10), ([''RegionB''], 10)]
   \<and> ties_in_first_seen_order [''region''] (rows tied)
         [([''RegionB''], 10), ([''RegionA''], 10)]"
proof (intro conjI notI)
  assume "\<exists>argsort r r'. numpy_sort argsort
        \<and> fst (analyze_turnout argsort (new_analyzer\<lparr>data := Some tied\<rparr>)) = Inr r
        \<and> fst (analyze_turnout argsort (new_analyzer\<lparr>data := Some tied_swapped\<rparr>)) = Inr r'
        \<and> ties_in_first_seen_order [''region''] (rows tied) r
        \<and> ties_in_first_seen_order [''region''] (rows tied_swapped) r'"
  then obtain argsort r r' where n: "numpy_sort argsort"
    and r: "fst (analyze_turnout argsort (new_analyzer\<lparr>data := Some tied\<rparr>)) = Inr r"
    and r': "fst (analyze_turnout argsort (new_analyzer\<lparr>data := Some tied_swapped\<rparr>)) = Inr r'"
    and t: "ties_in_first_seen_order [''region''] (rows tied) r"
    and t': "ties_in_first_seen_order [''region''] (rows tied_swapped) r'"
    by blast
  let ?x = "sort_values argsort False [([''RegionA''], 10), ([''RegionB''], 10 :: 64 word)]"
  have cols: "set [''region''] \<subseteq> set required_columns"
    by (simp add: required_columns_def)
  have "r = ?x"
    using r analyze_loaded [OF scenario_data(1) tied_required(1) cols]
    by (simp add: analyze_turnout_def tied_regions)
  moreover have "r' = ?x"
    using r' analyze_loaded [OF scenario_data(1) tied_required(2) cols]
    by (simp add: analyze_turnout_def tied_regions)
  moreover have "?x = [([''RegionA''], 10), ([''RegionB''], 10)]
      \<or> ?x = [([''RegionB''], 10), ([''RegionA''], 10)]"
    using sort_values_mset [OF n, of False "[([''RegionA''], 10), ([''RegionB''], 10)]"]
    by (intro mset_pair) simp
  moreover have "\<not> ties_in_first_seen_order [''region''] (rows tied)
      [([''RegionA''], 10), ([''RegionB''], 10)]"
    by code_simp
  moreover have "\<not> ties_in_first_seen_order [''region''] (rows tied_swapped)
      [([''RegionB''], 10), ([''RegionA''], 10)]"
    by code_simp
  ultimately show False
    using t t' by metis
qed code_simp+

subsection \<open>Looking a group up\<close>

lemma ranked_map_of:
  fixes rs :: "('k::linorder) row list"
  assumes "numpy_sort argsort"
  shows "map_of (sort_values argsort b (group_totals cols rs)) k =
     (if \<exists>r \<in> set rs. key_of cols r = Some k
      then Some (sum_list (map votes (filter (\<lambda>r. key_of cols r = Some k) rs)))
      else None)"
  by (simp only: sort_values_map_of [OF assms group_totals_distinct] group_totals_map_of)

lemma key_of_candidate_party:
  "key_of [''candidate'', ''party''] x = Some [c, p] \<longleftrightarrow> candidate x = Some c \<and> party x = Some p"
  by (cases "candidate x"; cases "party x") (auto simp: key_of_def cell_def)

lemma scenario_ranked_candidates:
  assumes "numpy_sort argsort"
  shows "sort_values argsort False (group_totals [''candidate'', ''party''] (rows scenario))
    = [([''Alice'', ''PartyX''], 130), ([''Bob'', ''PartyY''], 50)]"
proof -
  have g: "group_totals [''candidate'', ''party''] (rows scenario)
      = [([''Alice'', ''PartyX''], 130), ([''Bob'', ''PartyY''], 50)]"
    by code_simp
  have "distinct (map (\<lambda>e. sint (snd e))
      [([''Alice'', ''PartyX''], 130 :: 64 word), ([''Bob'', ''PartyY''], 50)])"
    by simp
  then have "sort_values argsort False
        [([''Alice'', ''PartyX''], 130 :: 64 word), ([''Bob'', ''PartyY''], 50)]
      = sort_values insertion_sort False
        [([''Alice'', ''PartyX''], 130), ([''Bob'', ''PartyY''], 50)]"
    by (rule sort_values_unique [OF assms])
  also have "\<dots> = [([''Alice'', ''PartyX''], 130), ([''Bob'', ''PartyY''], 50)]"
    by code_simp
  finally show ?thesis
    by (simp only: g)
qed

text \<open>
  C6 (candidate performance groups by the pair). For a loaded table with the required
  columns, and whatever sort numpy runs, the series of the candidate analysis has an
  entry for the pair \<open>(c, p)\<close> exactly when some row has candidate \<open>c\<close> and party \<open>p\<close>,
  and the entry is the sum of \<open>votes\<close> over the rows with that candidate and that
  party: rows of one candidate under two parties are two groups. The window stores the
  same series. On the three rows of the specification's scenario the result is
  \<open>[((Alice, PartyX), 130), ((Bob, PartyY), 50)]\<close>.
\<close>

theorem candidate_groups:
  fixes df :: "('k::linorder) dataframe"
  assumes "numpy_sort argsort" and "has_required_columns df"
    and "data s = Some df" and "data a = Some df"
  shows "(\<exists>r. fst (analyze_candidate_performance argsort s) = Inr r
        \<and> map_of (analysis_results (snd (analyze_candidate_performance argsort s)))
            ''candidate_performance'' = Some r
        \<and> map_of (analysis_results (snd (app_analyze_candidate_performance argsort ts a)))
            ''candidate_performance'' = Some r
        \<and> (\<forall>c p. map_of r [c, p] =
              (if \<exists>x \<in> set (rows df). candidate x = Some c \<and> party x = Some p
               then Some (sum_list (map votes
                      (filter (\<lambda>x. candidate x = Some c \<and> party x = Some p) (rows df))))
               else None)))
    \<and> (\<forall>srt. numpy_sort srt \<longrightarrow>
          fst (analyze_candidate_performance srt (new_analyzer\<lparr>data := Some scenario\<rparr>))
            = Inr [([''Alice'', ''PartyX''], 130), ([''Bob'', ''PartyY''], 50)])"
proof (intro conjI allI impI)
  let ?cols = "[''candidate'', ''party'']"
  let ?r = "sort_values argsort False (group_totals ?cols (rows df))"
  have cols: "set ?cols \<subseteq> set required_columns"
    by (simp add: required_columns_def)
  have 1: "fst (analyze_candidate_performance argsort s) = Inr ?r"
    and 2: "map_of (analysis_results (snd (analyze_candidate_performance argsort s)))
        ''candidate_performance'' = Some ?r"
    by (simp_all add: analyze_candidate_performance_def
        analyze_loaded [OF assms(3) assms(2) cols] update_conv')
  have 3: "map_of (analysis_results (snd (app_analyze_candidate_performance argsort ts a)))
        ''candidate_performance'' = Some ?r"
    by (simp add: app_analyze_candidate_performance_def
        app_analyze_loaded(2) [OF assms(4) assms(2) cols] update_conv')
  have 4: "map_of ?r [c, p] =
      (if \<exists>x \<in> set (rows df). candidate x = Some c \<and> party x = Some p
       then Some (sum_list (map votes
              (filter (\<lambda>x. candidate x = Some c \<and> party x = Some p) (rows df))))
       else None)" for c p
    by (simp only: ranked_map_of [OF assms(1)] key_of_candidate_party)
  from 1 2 3 4 show "\<exists>r. fst (analyze_candidate_performance argsort s) = Inr r
        \<and> map_of (analysis_results (snd (analyze_candidate_performance argsort s)))
            ''candidate_performance'' = Some r
        \<and> map_of (analysis_results (snd (app_analyze_candidate_performance argsort ts a)))
            ''candidate_performance'' = Some r
        \<and> (\<forall>c p. map_of r [c, p] =
              (if \<exists>x \<in> set (rows df). candidate x = Some c \<and> party x = Some p
               then Some (sum_list (map votes
                      (filter (\<lambda>x. candidate x = Some c \<and> party x = Some p) (rows df))))
               else None))"
    by blast
next
  fix srt :: "string series \<Rightarrow> string series"
  assume n: "numpy_sort srt"
  have cols: "set [''candidate'', ''party''] \<subseteq> set required_columns"
    by (simp add: required_columns_def)
  show "fst (analyze_candidate_performance srt (new_analyzer\<lparr>data := Some scenario\<rparr>))
      = Inr [([''Alice'', ''PartyX''], 130), ([''Bob'', ''PartyY''], 50)]"
    by (simp add: analyze_candidate_performance_def
        analyze_loaded [OF scenario_data(1) scenario_required cols]
        scenario_ranked_candidates [OF n])
qed

theorem candidate_groups_witness:
  "numpy_sort (insertion_sort :: string series \<Rightarrow> string series)
   \<and> has_required_columns scenario
   \<and> fst (analyze_candidate_performance insertion_sort (new_analyzer\<lparr>data := Some scenario\<rparr>))
       = Inr [([''Alice'', ''PartyX''], 130), ([''Bob'', ''PartyY''], 50)]
   \<and> (\<exists>r. fst (analyze_candidate_performance insertion_sort
               (new_analyzer\<lparr>data := Some scenario\<rparr>)) = Inr r
        \<and> map_of (analysis_results
             (snd (app_analyze_candidate_performance insertion_sort plain_lines
                (new_app\<lparr>data := Some scenario\<rparr>))))
            ''candidate_performance'' = Some r
        \<and> map_of r [''Alice'', ''PartyX''] = Some 130
        \<and> map_of r [''Alice'', ''PartyY''] = None)"
proof -
  note c = candidate_groups [OF insertion_sort_numpy scenario_required scenario_data(1,2),
      of plain_lines]
  from c obtain r where
    r: "fst (analyze_candidate_performance insertion_sort
          (new_analyzer\<lparr>data := Some scenario\<rparr>)) = Inr r"
      "map_of (analysis_results
         (snd (app_analyze_candidate_performance insertion_sort plain_lines
            (new_app\<lparr>data := Some scenario\<rparr>))))
        ''candidate_performance'' = Some r"
    and m: "\<And>c p. map_of r [c, p] =
       (if \<exists>x \<in> set (rows scenario). candidate x = Some c \<and> party x = Some p
        then Some (sum_list (map votes
               (filter (\<lambda>x. candidate x = Some c \<and> party x = Some p) (rows scenario))))
        else None)"
    by blast
  have "map_of r [''Alice'', ''PartyX''] = Some 130"
    and "map_of r [''Alice'', ''PartyY''] = None"
    by (simp_all add: m scenario_def entry_def)
  moreover from c have "fst (analyze_candidate_performance insertion_sort
        (new_analyzer\<lparr>data := Some scenario\<rparr>))
      = Inr [([''Alice'', ''PartyX''], 130), ([''Bob'', ''PartyY''], 50)]"
    using insertion_sort_numpy by blast
  ultimately show ?thesis
    using r scenario_required insertion_sort_numpy by blast
qed

subsection \<open>The analyses and the stored results\<close>

text \<open>
  C7 (an analysis needs a table), as the code has it. With no frame
  (\<^verbatim>\<open>self.data is None\<close>) every analysis of both classes fails with \<open>NoDataLoaded\<close> and
  leaves the whole state as it was. Whenever an analysis fails, for any reason, the
  dictionary of results is left as it was: nothing partial is stored. With a frame
  loaded, the outcome depends on its columns. The console class asks for all four
  required columns: with them the analysis succeeds and the dictionary afterwards is
  the old one with the entry of that kind set to the new ranked series, and without
  them it fails with \<open>MissingColumns\<close>. The window asks for the grouping columns of the
  kind and \<open>votes\<close>: with them it stores the series in the same way, and without them
  it fails with the \<open>KeyError\<close> of an absent column.
\<close>

theorem analysis_needs_data:
  fixes df :: "('k::linorder) dataframe"
  shows "(data s = None \<longrightarrow> run_analysis argsort k s = (Inl NoDataLoaded, s))
   \<and> (data a = None \<longrightarrow> app_run_analysis argsort ts k a = (Inl NoDataLoaded, a))
   \<and> (fst (run_analysis argsort k s) = Inl e \<longrightarrow> snd (run_analysis argsort k s) = s)
   \<and> (fst (app_run_analysis argsort ts k a) = Inl e \<longrightarrow>
        analysis_results (snd (app_run_analysis argsort ts k a)) = analysis_results a
        \<and> data (snd (app_run_analysis argsort ts k a)) = data a)
   \<and> (data s = Some df \<and> has_required_columns df \<longrightarrow>
        run_analysis argsort k s =
          (Inr (sort_values argsort False (group_totals (group_columns k) (rows df))),
           s\<lparr>analysis_results :=
               AList.update (result_key k)
                 (sort_values argsort False (group_totals (group_columns k) (rows df)))
                 (analysis_results s)\<rparr>)
        \<and> map_of (analysis_results (snd (run_analysis argsort k s)))
            = (map_of (analysis_results s))
                (result_key k \<mapsto>
                   sort_values argsort False (group_totals (group_columns k) (rows df))))
   \<and> (data s = Some df \<and> \<not> has_required_columns df \<longrightarrow>
        run_analysis argsort k s =
          (Inl (MissingColumns (filter (\<lambda>col. col \<notin> set (columns df)) required_columns)), s))
   \<and> (data a = Some df \<and> set (group_columns k @ [''votes'']) \<subseteq> set (columns df) \<longrightarrow>
        fst (app_run_analysis argsort ts k a) = Inr ()
        \<and> data (snd (app_run_analysis argsort ts k a)) = data a
        \<and> map_of (analysis_results (snd (app_run_analysis argsort ts k a)))
            = (map_of (analysis_results a))
                (result_key k \<mapsto>
                   sort_values argsort False (group_totals (group_columns k) (rows df))))
   \<and> (data a = Some df \<and> \<not> set (group_columns k @ [''votes'']) \<subseteq> set (columns df) \<longrightarrow>
        (\<exists>c. c \<in> set (group_columns k @ [''votes'']) \<and> c \<notin> set (columns df)
           \<and> fst (app_run_analysis argsort ts k a) = Inl (KeyError c)))"
proof -
  obtain header shown completed failed where
    app: "app_run_analysis argsort ts k
      = app_analyze argsort ts (result_key k) (group_columns k) header shown completed failed"
    using app_run_analysis_analyze by blast
  have 1: "data s = None \<longrightarrow> run_analysis argsort k s = (Inl NoDataLoaded, s)"
    by (simp add: run_analysis_analyze analyze_def)
  have 2: "data a = None \<longrightarrow> app_run_analysis argsort ts k a = (Inl NoDataLoaded, a)"
    by (simp add: app app_analyze_empty)
  have 3: "fst (run_analysis argsort k s) = Inl e \<longrightarrow> snd (run_analysis argsort k s) = s"
    by (simp add: run_analysis_analyze analyze_failed)
  have 4: "fst (app_run_analysis argsort ts k a) = Inl e \<longrightarrow>
        analysis_results (snd (app_run_analysis argsort ts k a)) = analysis_results a
        \<and> data (snd (app_run_analysis argsort ts k a)) = data a"
    by (simp add: app app_analyze_failed app_analyze_data)
  have 5: "data s = Some df \<and> has_required_columns df \<longrightarrow>
        run_analysis argsort k s =
          (Inr (sort_values argsort False (group_totals (group_columns k) (rows df))),
           s\<lparr>analysis_results :=
               AList.update (result_key k)
                 (sort_values argsort False (group_totals (group_columns k) (rows df)))
                 (analysis_results s)\<rparr>)
        \<and> map_of (analysis_results (snd (run_analysis argsort k s)))
            = (map_of (analysis_results s))
                (result_key k \<mapsto>
                   sort_values argsort False (group_totals (group_columns k) (rows df)))"
    using group_columns_required [of k]
    by (simp add: run_analysis_analyze analyze_loaded update_conv')
  have 6: "data s = Some df \<and> \<not> has_required_columns df \<longrightarrow>
        run_analysis argsort k s =
          (Inl (MissingColumns (filter (\<lambda>col. col \<notin> set (columns df)) required_columns)), s)"
    by (simp add: run_analysis_analyze analyze_missing)
  have 7: "data a = Some df \<and> set (group_columns k @ [''votes'']) \<subseteq> set (columns df) \<longrightarrow>
        fst (app_run_analysis argsort ts k a) = Inr ()
        \<and> data (snd (app_run_analysis argsort ts k a)) = data a
        \<and> map_of (analysis_results (snd (app_run_analysis argsort ts k a)))
            = (map_of (analysis_results a))
                (result_key k \<mapsto>
                   sort_values argsort False (group_totals (group_columns k) (rows df)))"
    unfolding app
    by (auto simp: app_analyze_present app_analyze_data update_conv')
  have 8: "data a = Some df \<and> \<not> set (group_columns k @ [''votes'']) \<subseteq> set (columns df) \<longrightarrow>
        (\<exists>c. c \<in> set (group_columns k @ [''votes'']) \<and> c \<notin> set (columns df)
           \<and> fst (app_run_analysis argsort ts k a) = Inl (KeyError c))"
    unfolding app using app_analyze_absent [of a df "group_columns k"] by blast
  from 1 2 3 4 5 6 7 8 show ?thesis
    by blast
qed

theorem analysis_needs_data_witness:
  "run_analysis insertion_sort PartyPerformance (new_analyzer :: string analyzer)
     = (Inl NoDataLoaded, new_analyzer)
   \<and> app_run_analysis insertion_sort plain_lines PartyPerformance new_app
       = (Inl NoDataLoaded, new_app)
   \<and> has_required_columns scenario
   \<and> fst (run_analysis insertion_sort PartyPerformance (new_analyzer\<lparr>data := Some scenario\<rparr>))
       = Inr [([''PartyX''], 130), ([''PartyY''], 50)]
   \<and> map_of (analysis_results
         (snd (run_analysis insertion_sort PartyPerformance (new_analyzer\<lparr>data := Some scenario\<rparr>))))
       = [''party_performance'' \<mapsto> [([''PartyX''], 130), ([''PartyY''], 50)]]
   \<and> map_of (analysis_results
         (snd (app_run_analysis insertion_sort plain_lines PartyPerformance
            (new_app\<lparr>data := Some scenario\<rparr>))))
       = [''party_performance'' \<mapsto> [([''PartyX''], 130), ([''PartyY''], 50)]]
   \<and> \<not> has_required_columns partial
   \<and> run_analysis insertion_sort PartyPerformance (new_analyzer\<lparr>data := Some partial\<rparr>)
       = (Inl (MissingColumns [''candidate'', ''party'']), new_analyzer\<lparr>data := Some partial\<rparr>)
   \<and> (\<exists>c. c \<notin> set (columns partial)
         \<and> fst (app_run_analysis insertion_sort plain_lines PartyPerformance
               (new_app\<lparr>data := Some partial\<rparr>)) = Inl (KeyError c))"
proof -
  have r: "sort_values insertion_sort False (group_totals [''party''] (rows scenario))
      = [([''PartyX''], 130), ([''PartyY''], 50)]"
    by code_simp
  have e: "data (new_analyzer :: string analyzer) = None" "data (new_app :: string app) = None"
    by (simp_all add: new_analyzer_def new_app_def)
  have c: "set (group_columns PartyPerformance @ [''votes'']) \<subseteq> set (columns scenario)"
    by (simp add: scenario_def)
  have p: "\<not> has_required_columns partial"
    "\<not> set (group_columns PartyPerformance @ [''votes'']) \<subseteq> set (columns partial)"
    by (simp_all add: has_required_columns_def required_columns_def partial_def)
  have f: "filter (\<lambda>col. col \<notin> set (columns partial)) required_columns
      = [''candidate'', ''party'']"
    by (simp add: required_columns_def partial_def)
  note empty = analysis_needs_data [where argsort = insertion_sort and k = PartyPerformance
      and s = "new_analyzer :: string analyzer" and a = new_app and ts = plain_lines]
  note loaded = analysis_needs_data [where argsort = insertion_sort and k = PartyPerformance
      and s = "new_analyzer\<lparr>data := Some scenario\<rparr>"
      and a = "new_app\<lparr>data := Some scenario\<rparr>" and ts = plain_lines and df = scenario]
  note lacking = analysis_needs_data [where argsort = insertion_sort and k = PartyPerformance
      and s = "new_analyzer\<lparr>data := Some partial\<rparr>"
      and a = "new_app\<lparr>data := Some partial\<rparr>" and ts = plain_lines and df = partial]
  have 1: "run_analysis insertion_sort PartyPerformance (new_analyzer :: string analyzer)
      = (Inl NoDataLoaded, new_analyzer)"
    and 2: "app_run_analysis insertion_sort plain_lines PartyPerformance new_app
      = (Inl NoDataLoaded, new_app)"
    using empty e by blast+
  have 3: "fst (run_analysis insertion_sort PartyPerformance (new_analyzer\<lparr>data := Some scenario\<rparr>))
      = Inr [([''PartyX''], 130), ([''PartyY''], 50)]"
  proof -
    from loaded scenario_data(1) scenario_required
    have "run_analysis insertion_sort PartyPerformance (new_analyzer\<lparr>data := Some scenario\<rparr>) =
          (Inr (sort_values insertion_sort False
                 (group_totals (group_columns PartyPerformance) (rows scenario))),
           (new_analyzer\<lparr>data := Some scenario\<rparr>)\<lparr>analysis_results :=
               AList.update (result_key PartyPerformance)
                 (sort_values insertion_sort False
                   (group_totals (group_columns PartyPerformance) (rows scenario)))
                 (analysis_results (new_analyzer\<lparr>data := Some scenario\<rparr>))\<rparr>)"
      by blast
    then show ?thesis by (simp add: r)
  qed
  have 4: "map_of (analysis_results
         (snd (run_analysis insertion_sort PartyPerformance (new_analyzer\<lparr>data := Some scenario\<rparr>))))
       = [''party_performance'' \<mapsto> [([''PartyX''], 130), ([''PartyY''], 50)]]"
  proof -
    from loaded scenario_data(1) scenario_required
    have "map_of (analysis_results
         (snd (run_analysis insertion_sort PartyPerformance (new_analyzer\<lparr>data := Some scenario\<rparr>))))
        = (map_of (analysis_results (new_analyzer\<lparr>data := Some scenario\<rparr>)))
            (result_key PartyPerformance \<mapsto>
               sort_values insertion_sort False
                 (group_totals (group_columns PartyPerformance) (rows scenario)))"
      by blast
    then show ?thesis by (simp add: r scenario_data)
  qed
  have 5: "map_of (analysis_results
         (snd (app_run_analysis insertion_sort plain_lines PartyPerformance
            (new_app\<lparr>data := Some scenario\<rparr>))))
       = [''party_performance'' \<mapsto> [([''PartyX''], 130), ([''PartyY''], 50)]]"
  proof -
    from loaded scenario_data(2) c
    have "map_of (analysis_results
         (snd (app_run_analysis insertion_sort plain_lines PartyPerformance
            (new_app\<lparr>data := Some scenario\<rparr>))))
        = (map_of (analysis_results (new_app\<lparr>data := Some scenario\<rparr>)))
            (result_key PartyPerformance \<mapsto>
               sort_values insertion_sort False
                 (group_totals (group_columns PartyPerformance) (rows scenario)))"
      by blast
    then show ?thesis by (simp add: r scenario_data)
  qed
  have 6: "run_analysis insertion_sort PartyPerformance (new_analyzer\<lparr>data := Some partial\<rparr>)
       = (Inl (MissingColumns [''candidate'', ''party'']), new_analyzer\<lparr>data := Some partial\<rparr>)"
  proof -
    from lacking scenario_data(1) p(1)
    have "run_analysis insertion_sort PartyPerformance (new_analyzer\<lparr>data := Some partial\<rparr>) =
          (Inl (MissingColumns (filter (\<lambda>col. col \<notin> set (columns partial)) required_columns)),
           new_analyzer\<lparr>data := Some partial\<rparr>)"
      by blast
    then show ?thesis by (simp only: f)
  qed
  have 7: "\<exists>c. c \<notin> set (columns partial)
         \<and> fst (app_run_analysis insertion_sort plain_lines PartyPerformance
               (new_app\<lparr>data := Some partial\<rparr>)) = Inl (KeyError c)"
    using lacking scenario_data(2) p(2) by blast
  from 1 2 3 4 5 6 7 scenario_required p(1) show ?thesis
    by blast
qed

text \<open>
  The claim as the specification words it fails with the file \<open>partial.csv\<close>, which has
  the columns \<open>region\<close> and \<open>votes\<close> only. The console class loads it (the load answers
  \<^verbatim>\<open>True\<close> and the frame is in \<^verbatim>\<open>self.data\<close>), and the party analysis then fails with
  \<open>MissingColumns\<close> and stores nothing. The window's load reports the missing columns
  and keeps the frame all the same; its party analysis then fails with a \<open>KeyError\<close>,
  while its turnout analysis succeeds.
\<close>

theorem loaded_table_counterexample:
  "fst (load_data disk ''partial.csv'' new_analyzer) = Inr True
   \<and> map_option columns (data (snd (load_data disk ''partial.csv'' new_analyzer)))
       = Some [''region'', ''votes'']
   \<and> fst (run_analysis insertion_sort PartyPerformance
            (snd (load_data disk ''partial.csv'' new_analyzer)))
       = Inl (MissingColumns [''candidate'', ''party''])
   \<and> analysis_results (snd (run_analysis insertion_sort PartyPerformance
            (snd (load_data disk ''partial.csv'' new_analyzer)))) = []
   \<and> fst (app_load_data disk ''partial.csv'' ''csv'' new_app)
       = Inl (MissingColumns [''candidate'', ''party''])
   \<and> map_option columns (data (snd (app_load_data disk ''partial.csv'' ''csv'' new_app)))
       = Some [''region'', ''votes'']
   \<and> fst (app_run_analysis insertion_sort plain_lines PartyPerformance
            (snd (app_load_data disk ''partial.csv'' ''csv'' new_app)))
       = Inl (KeyError ''party'')
   \<and> analysis_results (snd (app_run_analysis insertion_sort plain_lines PartyPerformance
            (snd (app_load_data disk ''partial.csv'' ''csv'' new_app)))) = []
   \<and> analysis_results (snd (app_run_analysis insertion_sort plain_lines TurnoutByRegion
            (snd (app_load_data disk ''partial.csv'' ''csv'' new_app))))
       = [(''turnout_by_region'', [([''RegionA''], 10)])]"
  by code_simp

text \<open>
  C10 (an analysis writes its own entry only). Whatever the state, after an analysis
  of kind \<open>k\<close> every key of the dictionary other than the key of \<open>k\<close>, and so the
  entry of every other kind, holds what it held before; the frame is not touched.
\<close>

theorem analysis_writes_own_key:
  fixes s :: "('k::linorder) analyzer"
  shows "(n \<noteq> result_key k \<longrightarrow>
      map_of (analysis_results (snd (run_analysis argsort k s))) n
        = map_of (analysis_results s) n
      \<and> map_of (analysis_results (snd (app_run_analysis argsort ts k a))) n
          = map_of (analysis_results a) n)
   \<and> (j \<noteq> k \<longrightarrow>
      map_of (analysis_results (snd (run_analysis argsort k s))) (result_key j)
        = map_of (analysis_results s) (result_key j)
      \<and> map_of (analysis_results (snd (app_run_analysis argsort ts k a))) (result_key j)
          = map_of (analysis_results a) (result_key j))
   \<and> data (snd (run_analysis argsort k s)) = data s
   \<and> data (snd (app_run_analysis argsort ts k a)) = data a"
proof -
  obtain header shown completed failed where
    app: "app_run_analysis argsort ts k
      = app_analyze argsort ts (result_key k) (group_columns k) header shown completed failed"
    using app_run_analysis_analyze by blast
  have others: "map_of (analysis_results (snd (run_analysis argsort k s))) m
        = map_of (analysis_results s) m
      \<and> map_of (analysis_results (snd (app_run_analysis argsort ts k a))) m
        = map_of (analysis_results a) m" if "m \<noteq> result_key k" for m
    using that by (simp add: run_analysis_analyze analyze_others app app_analyze_others)
  have "data (snd (run_analysis argsort k s)) = data s"
    by (simp add: run_analysis_analyze analyze_data)
  moreover have "data (snd (app_run_analysis argsort ts k a)) = data a"
    by (simp add: app app_analyze_data)
  moreover have "result_key j \<noteq> result_key k" if "j \<noteq> k"
    using that by (simp add: result_key_inject)
  ultimately show ?thesis
    using others by blast
qed

theorem analysis_writes_own_key_witness:
  "TurnoutByRegion \<noteq> PartyPerformance
   \<and> map_of (analysis_results
        (snd (run_analysis insertion_sort PartyPerformance
           (snd (run_analysis insertion_sort TurnoutByRegion
              (new_analyzer\<lparr>data := Some scenario\<rparr>))))))
       ''turnout_by_region''
     = Some [([''RegionA''], 150), ([''RegionB''], 30)]
   \<and> map_of (analysis_results
        (snd (app_run_analysis insertion_sort plain_lines PartyPerformance
           (snd (app_run_analysis insertion_sort plain_lines TurnoutByRegion
              (new_app\<lparr>data := Some scenario\<rparr>))))))
       ''turnout_by_region''
     = Some [([''RegionA''], 150), ([''RegionB''], 30)]"
proof -
  have "map_of (analysis_results
        (snd (run_analysis insertion_sort TurnoutByRegion (new_analyzer\<lparr>data := Some scenario\<rparr>))))
       ''turnout_by_region'' = Some [([''RegionA''], 150), ([''RegionB''], 30)]"
    by code_simp
  moreover have "map_of (analysis_results
        (snd (app_run_analysis insertion_sort plain_lines TurnoutByRegion
           (new_app\<lparr>data := Some scenario\<rparr>))))
       ''turnout_by_region'' = Some [([''RegionA''], 150), ([''RegionB''], 30)]"
    by code_simp
  ultimately show ?thesis
    using analysis_writes_own_key [where j = TurnoutByRegion and k = PartyPerformance
        and argsort = insertion_sort
        and s = "snd (run_analysis insertion_sort TurnoutByRegion
                   (new_analyzer\<lparr>data := Some scenario\<rparr>))"
        and a = "snd (app_run_analysis insertion_sort plain_lines TurnoutByRegion
                   (new_app\<lparr>data := Some scenario\<rparr>))"
        and ts = plain_lines]
    by simp
qed

subsection \<open>Loading\<close>

lemma load_data_results: "analysis_results (snd (load_data fs p s)) = analysis_results s"
  by (auto simp: load_data_def split: option.splits sum.splits)

lemma app_load_data_results:
  "analysis_results (snd (app_load_data fs p t a)) = analysis_results a"
  by (auto simp: app_load_data_def update_results_def split: option.splits sum.splits)

lemma load_data_loaded:
  "fst (load_data fs p s) = Inr b \<Longrightarrow>
   b \<and> (\<exists>df. fs p = Some (Inr df) \<and> snd (load_data fs p s) = s\<lparr>data := Some df\<rparr>)"
  by (auto simp: load_data_def split: option.splits sum.splits if_splits)

lemma app_load_data_loaded:
  assumes "p \<noteq> []" and "t = ''csv'' \<or> t = ''json''"
    and "fst (app_load_data fs p t a) = Inr ()"
  shows "\<exists>df. fs p = Some (Inr df) \<and> has_required_columns df
    \<and> data (snd (app_load_data fs p t a)) = Some df"
  using assms
  by (auto simp: app_load_data_def update_results_def split: option.splits sum.splits if_splits)

text \<open>
  C1 (loading over stored results), as the code has it. \<^verbatim>\<open>load_data\<close> of either class
  assigns \<^verbatim>\<open>self.data\<close> and never \<^verbatim>\<open>self.analysis_results\<close>: after every load,
  successful or not, the dictionary of results is what it was before. A successful
  load puts the frame read from the file in \<^verbatim>\<open>self.data\<close>, so the results of the
  earlier table stay stored beside the new table until each analysis is run again.
\<close>

theorem load_keeps_results:
  "analysis_results (snd (load_data fs p s)) = analysis_results s
   \<and> analysis_results (snd (app_load_data fs p t a)) = analysis_results a
   \<and> (fst (load_data fs p s) = Inr b \<longrightarrow>
        b \<and> (\<exists>df. fs p = Some (Inr df) \<and> snd (load_data fs p s) = s\<lparr>data := Some df\<rparr>))
   \<and> (p \<noteq> [] \<and> (t = ''csv'' \<or> t = ''json'') \<and> fst (app_load_data fs p t a) = Inr () \<longrightarrow>
        (\<exists>df. fs p = Some (Inr df) \<and> has_required_columns df
           \<and> data (snd (app_load_data fs p t a)) = Some df))"
  using load_data_loaded [of fs p s b] app_load_data_loaded [of p t fs a]
  by (simp only: load_data_results app_load_data_results) blast

theorem load_keeps_results_witness:
  "fst (load_data disk ''recount.json''
         (snd (analyze_turnout insertion_sort (snd (load_data disk ''results.csv'' new_analyzer)))))
     = Inr True
   \<and> disk ''recount.json'' = Some (Inr tied)
   \<and> analysis_results
        (snd (load_data disk ''recount.json''
           (snd (analyze_turnout insertion_sort (snd (load_data disk ''results.csv'' new_analyzer))))))
      = analysis_results
          (snd (analyze_turnout insertion_sort (snd (load_data disk ''results.csv'' new_analyzer))))
   \<and> (\<exists>df. disk ''recount.json'' = Some (Inr df)
        \<and> data (snd (app_load_data disk ''recount.json'' ''json''
              (snd (app_analyze_turnout insertion_sort plain_lines
                 (snd (app_load_data disk ''results.csv'' ''csv'' new_app)))))) = Some df)"
proof -
  let ?s = "snd (analyze_turnout insertion_sort (snd (load_data disk ''results.csv'' new_analyzer)))"
  let ?a = "snd (app_analyze_turnout insertion_sort plain_lines
                 (snd (app_load_data disk ''results.csv'' ''csv'' new_app)))"
  note l = load_keeps_results [where fs = disk and p = "''recount.json''" and t = "''json''"
        and b = True and s = ?s and a = ?a]
  have 1: "fst (load_data disk ''recount.json'' ?s) = Inr True"
    by code_simp
  have 2: "fst (app_load_data disk ''recount.json'' ''json'' ?a) = Inr ()"
    by code_simp
  have 3: "disk ''recount.json'' = Some (Inr tied)"
    by (simp add: disk_def)
  have 4: "analysis_results (snd (load_data disk ''recount.json'' ?s)) = analysis_results ?s"
    using l by blast
  have 5: "\<exists>df. disk ''recount.json'' = Some (Inr df)
        \<and> data (snd (app_load_data disk ''recount.json'' ''json'' ?a)) = Some df"
    using l 2 by auto
  from 1 3 4 5 show ?thesis
    by blast
qed

text \<open>
  The claim as the specification words it fails in both classes: load the scenario,
  analyse the turnout, load the recount; the load succeeds, the table is the recount,
  and the turnout of the first table is still the stored result. The two totals
  differ, so every sort ranks them so.
\<close>

theorem reload_discards_results_counterexample:
  "fst (load_data disk ''recount.json''
         (snd (analyze_turnout insertion_sort (snd (load_data disk ''results.csv'' new_analyzer)))))
     = Inr True
   \<and> map_option rows (data
        (snd (load_data disk ''recount.json''
           (snd (analyze_turnout insertion_sort (snd (load_data disk ''results.csv'' new_analyzer)))))))
      = Some (rows tied)
   \<and> analysis_results
        (snd (load_data disk ''recount.json''
           (snd (analyze_turnout insertion_sort (snd (load_data disk ''results.csv'' new_analyzer))))))
      = [(''turnout_by_region'', [([''RegionA''], 150), ([''RegionB''], 30)])]
   \<and> fst (app_load_data disk ''recount.json'' ''json''
         (snd (app_analyze_turnout insertion_sort plain_lines
            (snd (app_load_data disk ''results.csv'' ''csv'' new_app))))) = Inr ()
   \<and> analysis_results
        (snd (app_load_data disk ''recount.json'' ''json''
           (snd (app_analyze_turnout insertion_sort plain_lines
              (snd (app_load_data disk ''results.csv'' ''csv'' new_app))))))
      = [(''turnout_by_region'', [([''RegionA''], 150), ([''RegionB''], 30)])]"
  by code_simp

text \<open>
  C2 (validation of the votes), as the code has it. Validation reads the column names
  and nothing else: a frame with the four required columns is valid whatever numbers
  its votes column holds, a negative count included. The only error validation raises
  on a frame is \<open>MissingColumns\<close>, with the absent required columns in their fixed
  order; the window's load makes the same test and keeps the frame as read.
\<close>

theorem validation_reads_columns_only:
  "(has_required_columns df \<longrightarrow>
      validate_data (s\<lparr>data := Some (df\<lparr>rows := rs\<rparr>)\<rparr>) = Inr True
      \<and> (p \<noteq> [] \<and> (t = ''csv'' \<or> t = ''json'') \<and> fs p = Some (Inr (df\<lparr>rows := rs\<rparr>)) \<longrightarrow>
           fst (app_load_data fs p t a) = Inr ()
           \<and> data (snd (app_load_data fs p t a)) = Some (df\<lparr>rows := rs\<rparr>)))
   \<and> (\<not> has_required_columns df \<longrightarrow>
      validate_data (s\<lparr>data := Some (df\<lparr>rows := rs\<rparr>)\<rparr>)
        = Inl (MissingColumns (filter (\<lambda>col. col \<notin> set (columns df)) required_columns)))"
  by (simp add: validate_data_def has_required_columns_def app_load_data_def update_results_def)

theorem validation_reads_columns_only_witness:
  "has_required_columns negative
   \<and> validate_data (new_analyzer\<lparr>data := Some negative\<rparr>) = Inr True
   \<and> fst (app_load_data disk ''negative.csv'' ''csv'' new_app) = Inr ()
   \<and> data (snd (app_load_data disk ''negative.csv'' ''csv'' new_app)) = Some negative
   \<and> \<not> has_required_columns partial
   \<and> validate_data (new_analyzer\<lparr>data := Some partial\<rparr>)
       = Inl (MissingColumns [''candidate'', ''party''])"
proof -
  have v: "has_required_columns negative"
    by (simp add: has_required_columns_def required_columns_def negative_def)
  have d: "disk ''negative.csv'' = Some (Inr negative)"
    by (simp add: disk_def)
  have n: "\<not> has_required_columns partial"
    by (simp add: has_required_columns_def required_columns_def partial_def)
  have f: "filter (\<lambda>col. col \<notin> set (columns partial)) required_columns
      = [''candidate'', ''party'']"
    by (simp add: required_columns_def partial_def)
  note valid = validation_reads_columns_only [where df = negative and s = new_analyzer
        and rs = "rows negative" and fs = disk and p = "''negative.csv''" and t = "''csv''"
        and a = new_app]
  note lacking = validation_reads_columns_only [where s = "new_analyzer :: string analyzer"
        and rs = "rows partial" and df = partial]
  have 1: "validate_data (new_analyzer\<lparr>data := Some negative\<rparr>) = Inr True"
    and 2: "fst (app_load_data disk ''negative.csv'' ''csv'' new_app) = Inr ()"
    and 3: "data (snd (app_load_data disk ''negative.csv'' ''csv'' new_app)) = Some negative"
    using valid v d by simp_all
  have 4: "validate_data (new_analyzer\<lparr>data := Some partial\<rparr>)
       = Inl (MissingColumns [''candidate'', ''party''])"
    using lacking n unfolding f by simp
  from v n 1 2 3 4 show ?thesis
    by blast
qed

text \<open>
  The claim as the specification words it fails on the table \<open>negative\<close>, whose one
  row has \<open>-5\<close> votes: validation succeeds, the window loads the file without an
  error, and the turnout analysis returns the negative total.
\<close>

theorem invalid_votes_counterexample:
  "has_required_columns negative
   \<and> map (\<lambda>x. sint (votes x)) (rows negative) = [- 5]
   \<and> validate_data (new_analyzer\<lparr>data := Some negative\<rparr>) = Inr True
   \<and> fst (analyze_turnout insertion_sort (new_analyzer\<lparr>data := Some negative\<rparr>))
       = Inr [([''RegionA''], - 5)]
   \<and> sint (- 5 :: 64 word) = - 5
   \<and> fst (app_load_data disk ''negative.csv'' ''csv'' new_app) = Inr ()"
  by code_simp

subsection \<open>The report\<close>

lemma generate_report_text:
  "analysis_results s \<noteq> [] \<Longrightarrow>
   generate_report ts now out s =
     (Inr (out,
        compose_report ts ''CANDIDATE PERFORMANCE:'' now (analysis_results s)
        @ (case map_of (visualizations s) ''latest'' of
             None \<Rightarrow> []
           | Some v \<Rightarrow> ''Visualization saved to: '' @ v @ nl)),
      s)"
  by (simp add: generate_report_def compose_report_def)

lemma app_generate_report_text:
  "analysis_results a \<noteq> [] \<Longrightarrow> p \<noteq> [] \<Longrightarrow>
   app_generate_report ts now p a =
     (Inr (Some (compose_report ts ''CANDIDATE PERFORMANCE (TOP 10):'' now (analysis_results a))),
      a\<lparr>status_var := ''Report saved to '' @ p\<rparr>)"
  by (simp add: app_generate_report_def compose_report_def)

text \<open>The two regions of the scenario have different totals: every sort ranks them alike.\<close>

lemma scenario_ranked_regions:
  assumes "numpy_sort argsort"
  shows "sort_values argsort False (group_totals [''region''] (rows scenario))
    = [([''RegionA''], 150), ([''RegionB''], 30)]"
proof -
  have g: "group_totals [''region''] (rows scenario)
      = [([''RegionA''], 150), ([''RegionB''], 30)]"
    by code_simp
  have "distinct (map (\<lambda>e. sint (snd e)) [([''RegionA''], 150 :: 64 word), ([''RegionB''], 30)])"
    by simp
  then have "sort_values argsort False [([''RegionA''], 150 :: 64 word), ([''RegionB''], 30)]
      = sort_values insertion_sort False [([''RegionA''], 150), ([''RegionB''], 30)]"
    by (rule sort_values_unique [OF assms])
  also have "\<dots> = [([''RegionA''], 150), ([''RegionB''], 30)]"
    by code_simp
  finally show ?thesis
    by (simp only: g)
qed

lemma turnout_stored:
  "analysis_results (snd (analyze_turnout insertion_sort (new_analyzer\<lparr>data := Some scenario\<rparr>)))
     = [(''turnout_by_region'', [([''RegionA''], 150), ([''RegionB''], 30)])]"
  "analysis_results
     (snd (app_analyze_turnout insertion_sort plain_lines (new_app\<lparr>data := Some scenario\<rparr>)))
     = [(''turnout_by_region'', [([''RegionA''], 150), ([''RegionB''], 30)])]"
  by code_simp+

text \<open>
  C8 (a report needs results). With an empty dictionary of results the report of
  either class fails with \<open>NoAnalysisResults\<close> and the state is untouched. Every
  successful analysis leaves the dictionary non-empty, and with a non-empty dictionary
  the console report is written and the state is untouched; the window writes the
  report to the file chosen in its dialog and changes the status bar only, the frame
  and the results staying as they were (a cancelled dialog writes nothing and changes
  nothing).
\<close>

theorem report_needs_results:
  fixes s :: "('k::linorder) analyzer"
  shows "(analysis_results s = [] \<longrightarrow>
        generate_report ts now out s = (Inl NoAnalysisResults, s))
   \<and> (analysis_results a = [] \<longrightarrow> app_generate_report ts now p a = (Inl NoAnalysisResults, a))
   \<and> (analysis_results s \<noteq> [] \<longrightarrow>
        (\<exists>text. generate_report ts now out s = (Inr (out, text), s)))
   \<and> (analysis_results a \<noteq> [] \<and> p \<noteq> [] \<longrightarrow>
        (\<exists>text. fst (app_generate_report ts now p a) = Inr (Some text))
        \<and> data (snd (app_generate_report ts now p a)) = data a
        \<and> analysis_results (snd (app_generate_report ts now p a)) = analysis_results a)
   \<and> (analysis_results a \<noteq> [] \<and> p = [] \<longrightarrow> app_generate_report ts now p a = (Inr None, a))
   \<and> (fst (run_analysis argsort k s) = Inr r \<longrightarrow>
        analysis_results (snd (run_analysis argsort k s)) \<noteq> [])
   \<and> (fst (app_run_analysis argsort ts k a) = Inr u \<longrightarrow>
        analysis_results (snd (app_run_analysis argsort ts k a)) \<noteq> [])"
proof -
  obtain header shown completed failed where
    app: "app_run_analysis argsort ts k
      = app_analyze argsort ts (result_key k) (group_columns k) header shown completed failed"
    using app_run_analysis_analyze by blast
  have 1: "fst (run_analysis argsort k s) = Inr r \<longrightarrow>
      analysis_results (snd (run_analysis argsort k s)) \<noteq> []"
    by (auto simp: run_analysis_analyze analyze_def split: option.splits sum.splits)
  have 2: "fst (app_run_analysis argsort ts k a) = Inr u \<longrightarrow>
      analysis_results (snd (app_run_analysis argsort ts k a)) \<noteq> []"
    unfolding app
    by (auto simp: app_analyze_def update_results_def split: option.splits sum.splits if_splits)
  have 3: "analysis_results s = [] \<longrightarrow> generate_report ts now out s = (Inl NoAnalysisResults, s)"
    "analysis_results a = [] \<longrightarrow> app_generate_report ts now p a = (Inl NoAnalysisResults, a)"
    "analysis_results a \<noteq> [] \<and> p = [] \<longrightarrow> app_generate_report ts now p a = (Inr None, a)"
    by (simp_all add: generate_report_def app_generate_report_def)
  have 4: "analysis_results s \<noteq> [] \<longrightarrow>
      (\<exists>text. generate_report ts now out s = (Inr (out, text), s))"
    by (simp add: generate_report_text)
  have 5: "analysis_results a \<noteq> [] \<and> p \<noteq> [] \<longrightarrow>
        (\<exists>text. fst (app_generate_report ts now p a) = Inr (Some text))
        \<and> data (snd (app_generate_report ts now p a)) = data a
        \<and> analysis_results (snd (app_generate_report ts now p a)) = analysis_results a"
    by (simp add: app_generate_report_text)
  from 1 2 3 4 5 show ?thesis
    by blast
qed

theorem report_needs_results_witness:
  "generate_report plain_lines ''2026-01-01 12:00:00'' ''election_report.txt'' new_analyzer
     = (Inl NoAnalysisResults, new_analyzer)
   \<and> app_generate_report plain_lines ''2026-01-01 12:00:00'' ''report.txt'' new_app
       = (Inl NoAnalysisResults, new_app)
   \<and> analysis_results
        (snd (analyze_turnout insertion_sort (new_analyzer\<lparr>data := Some scenario\<rparr>))) \<noteq> []
   \<and> (\<exists>text. generate_report plain_lines ''2026-01-01 12:00:00'' ''election_report.txt''
                (snd (analyze_turnout insertion_sort (new_analyzer\<lparr>data := Some scenario\<rparr>)))
        = (Inr (''election_report.txt'', text),
           snd (analyze_turnout insertion_sort (new_analyzer\<lparr>data := Some scenario\<rparr>))))
   \<and> (\<exists>text. fst (app_generate_report plain_lines ''2026-01-01 12:00:00'' ''report.txt''
                (snd (app_analyze_turnout insertion_sort plain_lines
                   (new_app\<lparr>data := Some scenario\<rparr>))))
        = Inr (Some text))
   \<and> app_generate_report plain_lines ''2026-01-01 12:00:00'' []
        (snd (app_analyze_turnout insertion_sort plain_lines (new_app\<lparr>data := Some scenario\<rparr>)))
      = (Inr None,
         snd (app_analyze_turnout insertion_sort plain_lines (new_app\<lparr>data := Some scenario\<rparr>)))"
proof -
  let ?s = "snd (analyze_turnout insertion_sort (new_analyzer\<lparr>data := Some scenario\<rparr>))"
  let ?a = "snd (app_analyze_turnout insertion_sort plain_lines (new_app\<lparr>data := Some scenario\<rparr>))"
  have e: "analysis_results (new_analyzer :: string analyzer) = []"
    "analysis_results (new_app :: string app) = []"
    by (simp_all add: new_analyzer_def new_app_def)
  have n: "analysis_results ?s \<noteq> []" "analysis_results ?a \<noteq> []"
    by (simp_all add: turnout_stored)
  note empty = report_needs_results [where s = "new_analyzer :: string analyzer" and a = new_app
      and ts = plain_lines and now = "''2026-01-01 12:00:00''"
      and out = "''election_report.txt''" and p = "''report.txt''"]
  note filled = report_needs_results [where ts = plain_lines and s = ?s and a = ?a
      and now = "''2026-01-01 12:00:00''" and out = "''election_report.txt''"
      and p = "''report.txt''"]
  note cancelled = report_needs_results [where ts = plain_lines and a = ?a
      and now = "''2026-01-01 12:00:00''" and p = "[]"]
  have 1: "generate_report plain_lines ''2026-01-01 12:00:00'' ''election_report.txt'' new_analyzer
      = (Inl NoAnalysisResults, (new_analyzer :: string analyzer))"
    and 2: "app_generate_report plain_lines ''2026-01-01 12:00:00'' ''report.txt'' new_app
      = (Inl NoAnalysisResults, new_app)"
    using empty e by blast+
  have 3: "\<exists>text. generate_report plain_lines ''2026-01-01 12:00:00'' ''election_report.txt'' ?s
      = (Inr (''election_report.txt'', text), ?s)"
    using filled n(1) by blast
  have 4: "\<exists>text. fst (app_generate_report plain_lines ''2026-01-01 12:00:00'' ''report.txt'' ?a)
      = Inr (Some text)"
    using filled n(2) by auto
  have 5: "app_generate_report plain_lines ''2026-01-01 12:00:00'' [] ?a = (Inr None, ?a)"
    using cancelled n(2) by blast
  from 1 2 3 4 5 n(1) show ?thesis
    by blast
qed

text \<open>
  C9 (composition of the report), as the code has it. With a non-empty dictionary the
  window writes exactly the composed report: the title with its rule, the line of the
  generation time, then the blocks of the kinds present in the order turnout,
  parties, candidates, the candidate block showing the first ten entries; a kind
  that is absent contributes nothing. The console class writes the same (with its own
  candidate header) followed, when a visualization has been saved, by one more line
  naming the latest image. The text is built from the stored results alone: changing
  the frame does not change it.
\<close>

theorem report_composition:
  "(analysis_results s \<noteq> [] \<longrightarrow>
      generate_report ts now out s =
        (Inr (out,
           compose_report ts ''CANDIDATE PERFORMANCE:'' now (analysis_results s)
           @ (case map_of (visualizations s) ''latest'' of
                None \<Rightarrow> []
              | Some v \<Rightarrow> ''Visualization saved to: '' @ v @ nl)),
         s)
      \<and> fst (generate_report ts now out (s\<lparr>data := d\<rparr>)) = fst (generate_report ts now out s))
   \<and> (analysis_results a \<noteq> [] \<and> p \<noteq> [] \<longrightarrow>
      fst (app_generate_report ts now p a) =
        Inr (Some (compose_report ts ''CANDIDATE PERFORMANCE (TOP 10):'' now (analysis_results a)))
      \<and> fst (app_generate_report ts now p (a\<lparr>data := d\<rparr>)) = fst (app_generate_report ts now p a))
   \<and> compose_report ts h now results =
       ''ELECTION ANALYSIS REPORT'' @ nl @ replicate 40 (CHR ''='') @ nl @ nl
       @ ''Generated on: '' @ now @ nl @ nl
       @ concat (map
           (\<lambda>(name, header, shown).
              case map_of results name of
                None \<Rightarrow> []
              | Some x \<Rightarrow> header @ nl @ ts (shown x) @ nl @ nl)
           [(''turnout_by_region'', ''VOTER TURNOUT BY REGION:'', id),
            (''party_performance'', ''PARTY PERFORMANCE:'', id),
            (''candidate_performance'', h, take 10)])"
proof (intro conjI impI)
  assume "analysis_results s \<noteq> []"
  then show "generate_report ts now out s =
        (Inr (out,
           compose_report ts ''CANDIDATE PERFORMANCE:'' now (analysis_results s)
           @ (case map_of (visualizations s) ''latest'' of
                None \<Rightarrow> []
              | Some v \<Rightarrow> ''Visualization saved to: '' @ v @ nl)),
         s)"
    by (rule generate_report_text)
next
  show "fst (generate_report ts now out (s\<lparr>data := d\<rparr>)) = fst (generate_report ts now out s)"
    by (simp add: generate_report_def)
next
  assume "analysis_results a \<noteq> [] \<and> p \<noteq> []"
  then show "fst (app_generate_report ts now p a) =
        Inr (Some (compose_report ts ''CANDIDATE PERFORMANCE (TOP 10):'' now (analysis_results a)))"
    by (simp add: app_generate_report_text)
next
  show "fst (app_generate_report ts now p (a\<lparr>data := d\<rparr>)) = fst (app_generate_report ts now p a)"
    by (simp add: app_generate_report_def)
next
  have h10: "head 10 = (take 10 :: 'a series \<Rightarrow> 'a series)"
    by (simp add: head_def fun_eq_iff)
  show "compose_report ts h now results =
       ''ELECTION ANALYSIS REPORT'' @ nl @ replicate 40 (CHR ''='') @ nl @ nl
       @ ''Generated on: '' @ now @ nl @ nl
       @ concat (map
           (\<lambda>(name, header, shown).
              case map_of results name of
                None \<Rightarrow> []
              | Some x \<Rightarrow> header @ nl @ ts (shown x) @ nl @ nl)
           [(''turnout_by_region'', ''VOTER TURNOUT BY REGION:'', id),
            (''party_performance'', ''PARTY PERFORMANCE:'', id),
            (''candidate_performance'', h, take 10)])"
    unfolding compose_report_def report_head_def block_def h10
    by (simp split: option.splits)
qed

theorem report_composition_witness:
  "analysis_results
     (snd (app_analyze_party_performance insertion_sort plain_lines
        (new_app\<lparr>data := Some scenario\<rparr>))) \<noteq> []
   \<and> fst (app_generate_report plain_lines ''2026-01-01 12:00:00'' ''report.txt''
       (snd (app_analyze_party_performance insertion_sort plain_lines
          (new_app\<lparr>data := Some scenario\<rparr>))))
     = Inr (Some
        (''ELECTION ANALYSIS REPORT'' @ nl @ ''========================================'' @ nl @ nl
         @ ''Generated on: 2026-01-01 12:00:00'' @ nl @ nl
         @ ''PARTY PERFORMANCE:'' @ nl
         @ ''PartyX    130'' @ nl @ ''PartyY    50'' @ nl @ nl))
   \<and> (\<exists>text. generate_report plain_lines ''2026-01-01 12:00:00'' ''election_report.txt''
         (snd (analyze_party_performance insertion_sort (new_analyzer\<lparr>data := Some scenario\<rparr>)))
        = (Inr (''election_report.txt'', text),
           snd (analyze_party_performance insertion_sort (new_analyzer\<lparr>data := Some scenario\<rparr>))))"
proof -
  let ?s = "snd (analyze_party_performance insertion_sort (new_analyzer\<lparr>data := Some scenario\<rparr>))"
  let ?a = "snd (app_analyze_party_performance insertion_sort plain_lines
              (new_app\<lparr>data := Some scenario\<rparr>))"
  have n: "analysis_results ?a \<noteq> []" "analysis_results ?s \<noteq> []"
    by code_simp+
  have c: "compose_report plain_lines ''CANDIDATE PERFORMANCE (TOP 10):'' ''2026-01-01 12:00:00''
      (analysis_results ?a)
    = ''ELECTION ANALYSIS REPORT'' @ nl @ ''========================================'' @ nl @ nl
         @ ''Generated on: 2026-01-01 12:00:00'' @ nl @ nl
         @ ''PARTY PERFORMANCE:'' @ nl
         @ ''PartyX    130'' @ nl @ ''PartyY    50'' @ nl @ nl"
    by code_simp
  note r = report_composition [where ts = plain_lines and now = "''2026-01-01 12:00:00''"
        and out = "''election_report.txt''" and p = "''report.txt''" and s = ?s and a = ?a]
  have 1: "fst (app_generate_report plain_lines ''2026-01-01 12:00:00'' ''report.txt'' ?a)
      = Inr (Some (compose_report plain_lines ''CANDIDATE PERFORMANCE (TOP 10):''
          ''2026-01-01 12:00:00'' (analysis_results ?a)))"
    using r n(1) by auto
  have 2: "\<exists>text. generate_report plain_lines ''2026-01-01 12:00:00'' ''election_report.txt'' ?s
      = (Inr (''election_report.txt'', text), ?s)"
    using r n(2) by blast
  from 1 2 n(1) show ?thesis
    unfolding c by blast
qed

text \<open>
  The claim as the specification words it fails in the console class: analyse the
  turnout of the scenario, save the visualizations (matplotlib draws them), write the
  report. The report ends with the line of the saved image, which is none of the
  title, the time line and the blocks. The totals of the two regions differ, so every
  sort ranks them so.
\<close>

theorem report_extra_line_counterexample:
  "fst (generate_report plain_lines ''2026-01-01 12:00:00'' ''election_report.txt''
     (snd (generate_visualizations draws ''20260101_120000''
        (snd (analyze_turnout insertion_sort (new_analyzer\<lparr>data := Some scenario\<rparr>))))))
   = Inr (''election_report.txt'',
       ''ELECTION ANALYSIS REPORT'' @ nl @ ''========================================'' @ nl @ nl
       @ ''Generated on: 2026-01-01 12:00:00'' @ nl @ nl
       @ ''VOTER TURNOUT BY REGION:'' @ nl
       @ ''RegionA    150'' @ nl @ ''RegionB    30'' @ nl @ nl
       @ ''Visualization saved to: election_analysis_20260101_120000.png'' @ nl)
   \<and> fst (generate_report plain_lines ''2026-01-01 12:00:00'' ''election_report.txt''
     (snd (generate_visualizations draws ''20260101_120000''
        (snd (analyze_turnout insertion_sort (new_analyzer\<lparr>data := Some scenario\<rparr>))))))
   \<noteq> Inr (''election_report.txt'',
       compose_report plain_lines ''CANDIDATE PERFORMANCE:'' ''2026-01-01 12:00:00''
         (analysis_results
            (snd (generate_visualizations draws ''20260101_120000''
               (snd (analyze_turnout insertion_sort (new_analyzer\<lparr>data := Some scenario\<rparr>)))))))"
  by code_simp

end
